theory Spec2Isabelle
  imports Main
begin

section \<open>The syntax tree\<close>

text \<open>
  The rewriter of \<^verbatim>\<open>src/index.ts\<close> works on a Babel syntax tree. The node shapes
  that the file builds or inspects are constructors below, with the fields in the order
  of the Babel builder of the same name; every other node is kept as its type name and
  source text (\<open>OtherExpression\<close>, \<open>OtherStatement\<close>) or, when it has children, as its
  type name, the text of its other fields and its children (\<open>CompoundExpression\<close>). An
  identifier carries its optional type annotation, as Babel's \<^verbatim>\<open>Identifier\<close> does, and
  serves as expression, pattern and parameter alike.

  Nodes are objects, and a \<^verbatim>\<open>NodePath\<close> stands for one child position of one node
  object. A child that the rewriter reaches through a path is written \<open>ChildAt p\<close>
  inside the node that holds it, and the node at that position is found in the store of
  the next section: the node object keeps its children wherever it is moved, and a
  replacement at \<open>p\<close> shows in every node that holds \<open>ChildAt p\<close>.
\<close>

type_synonym path = nat

datatype exn = AnalysisError string | Error string | TypeError string

datatype TSEntityName = TSEntityIdentifier string | TSQualifiedName TSEntityName string

datatype ftype =
    FunctionDeclaration | FunctionExpression | ArrowFunctionExpression
  | ClassMethod | ClassPrivateMethod | ObjectMethod

datatype tstype =
    TSUndefinedKeyword
  | TSUnionType "tstype list"
  | TSFunctionType "expr list" tstype
  | TSTypeReference TSEntityName "tstype list option"
  | OtherType string
and expr =
    Identifier string "tstype option"
  | MemberExpression expr expr bool
  | CallExpression expr "expr list" "tstype list option"
  | NullLiteral
  | ObjectPattern "objprop list"
  | ArrayPattern "expr list"
  | AssignmentPattern expr expr
  | FunctionNode func
  | OtherExpression string string
  | CompoundExpression string string "expr list"
  | ChildAt path
and objprop =
    ObjectProperty expr expr bool bool
and fbody =
    BlockStatement "stmt list"
  | ExpressionBody expr
and stmt =
    VariableDeclaration string "declarator list"
  | FunctionStatement func
  | ReturnStatement expr
  | ExportDefaultDeclaration expr
  | ExpressionStatement expr
  | OtherStatement string
and declarator =
    VariableDeclarator expr expr
and func =
    Func (ftype: ftype) (fid: "string option") (params: "expr list") (fbody: fbody)
         (generator: bool) (async: bool) (returnType: "tstype option")

text \<open>\<^verbatim>\<open>node.type\<close>, as the error message of \<^verbatim>\<open>toTSEntity\<close> prints it. The rewriter asks
  for the type of nodes it has built or found at a path, never of a reference.\<close>

fun ftype_name :: "ftype \<Rightarrow> string" where
  "ftype_name FunctionDeclaration = ''FunctionDeclaration''"
| "ftype_name FunctionExpression = ''FunctionExpression''"
| "ftype_name ArrowFunctionExpression = ''ArrowFunctionExpression''"
| "ftype_name ClassMethod = ''ClassMethod''"
| "ftype_name ClassPrivateMethod = ''ClassPrivateMethod''"
| "ftype_name ObjectMethod = ''ObjectMethod''"

fun expr_type :: "expr \<Rightarrow> string" where
  "expr_type (Identifier n a) = ''Identifier''"
| "expr_type (MemberExpression ob p c) = ''MemberExpression''"
| "expr_type (CallExpression f xs tp) = ''CallExpression''"
| "expr_type NullLiteral = ''NullLiteral''"
| "expr_type (ObjectPattern ps) = ''ObjectPattern''"
| "expr_type (ArrayPattern es) = ''ArrayPattern''"
| "expr_type (AssignmentPattern l r) = ''AssignmentPattern''"
| "expr_type (FunctionNode f) = ftype_name (ftype f)"
| "expr_type (OtherExpression ty src) = ty"
| "expr_type (CompoundExpression ty src es) = ty"
| "expr_type (ChildAt p) = ''ChildAt''"

text \<open>
  Reading a tree: every reference is replaced by the node found at its position. One
  pass follows the references of a node; the nodes put in may hold references of their
  own.
\<close>

primrec fill_tstype :: "(path \<Rightarrow> expr) \<Rightarrow> tstype \<Rightarrow> tstype"
    and fill_expr :: "(path \<Rightarrow> expr) \<Rightarrow> expr \<Rightarrow> expr"
    and fill_objprop :: "(path \<Rightarrow> expr) \<Rightarrow> objprop \<Rightarrow> objprop"
    and fill_fbody :: "(path \<Rightarrow> expr) \<Rightarrow> fbody \<Rightarrow> fbody"
    and fill_stmt :: "(path \<Rightarrow> expr) \<Rightarrow> stmt \<Rightarrow> stmt"
    and fill_declarator :: "(path \<Rightarrow> expr) \<Rightarrow> declarator \<Rightarrow> declarator"
    and fill_func :: "(path \<Rightarrow> expr) \<Rightarrow> func \<Rightarrow> func"
where
  "fill_tstype at TSUndefinedKeyword = TSUndefinedKeyword"
| "fill_tstype at (TSUnionType ts) = TSUnionType (map (fill_tstype at) ts)"
| "fill_tstype at (TSFunctionType ps t) = TSFunctionType (map (fill_expr at) ps) (fill_tstype at t)"
| "fill_tstype at (TSTypeReference n ps) = TSTypeReference n (map_option (map (fill_tstype at)) ps)"
| "fill_tstype at (OtherType ty) = OtherType ty"
| "fill_expr at (Identifier n a) = Identifier n (map_option (fill_tstype at) a)"
| "fill_expr at (MemberExpression ob pr c) = MemberExpression (fill_expr at ob) (fill_expr at pr) c"
| "fill_expr at (CallExpression f xs tp)
     = CallExpression (fill_expr at f) (map (fill_expr at) xs) (map_option (map (fill_tstype at)) tp)"
| "fill_expr at NullLiteral = NullLiteral"
| "fill_expr at (ObjectPattern ps) = ObjectPattern (map (fill_objprop at) ps)"
| "fill_expr at (ArrayPattern es) = ArrayPattern (map (fill_expr at) es)"
| "fill_expr at (AssignmentPattern l r) = AssignmentPattern (fill_expr at l) (fill_expr at r)"
| "fill_expr at (FunctionNode f) = FunctionNode (fill_func at f)"
| "fill_expr at (OtherExpression ty src) = OtherExpression ty src"
| "fill_expr at (CompoundExpression ty src es) = CompoundExpression ty src (map (fill_expr at) es)"
| "fill_expr at (ChildAt p) = at p"
| "fill_objprop at (ObjectProperty k v c sh) = ObjectProperty (fill_expr at k) (fill_expr at v) c sh"
| "fill_fbody at (BlockStatement ss) = BlockStatement (map (fill_stmt at) ss)"
| "fill_fbody at (ExpressionBody e) = ExpressionBody (fill_expr at e)"
| "fill_stmt at (VariableDeclaration k ds) = VariableDeclaration k (map (fill_declarator at) ds)"
| "fill_stmt at (FunctionStatement f) = FunctionStatement (fill_func at f)"
| "fill_stmt at (ReturnStatement e) = ReturnStatement (fill_expr at e)"
| "fill_stmt at (ExportDefaultDeclaration e) = ExportDefaultDeclaration (fill_expr at e)"
| "fill_stmt at (ExpressionStatement e) = ExpressionStatement (fill_expr at e)"
| "fill_stmt at (OtherStatement src) = OtherStatement src"
| "fill_declarator at (VariableDeclarator i e) = VariableDeclarator (fill_expr at i) (fill_expr at e)"
| "fill_func at (Func ty i ps b g a rt)
     = Func ty i (map (fill_expr at) ps) (fill_fbody at b) g a (map_option (fill_tstype at) rt)"

section \<open>Node normalizer (lines 379 to 446)\<close>

text \<open>
  Modelled from the spec: \<^verbatim>\<open>assignReturnType\<close> of \<^verbatim>\<open>utils.js\<close>, which is not
  among the sources. The normalizer is said to carry the return-type annotation over, so
  the helper stores its second argument in the \<^verbatim>\<open>returnType\<close> field of the node.
\<close>

definition assignReturnType :: "func \<Rightarrow> tstype option \<Rightarrow> func" where
  "assignReturnType node rt =
     Func (ftype node) (fid node) (params node) (fbody node) (generator node) (async node) rt"

text \<open>Lines 381 to 387: only declarations and function expressions have a name.\<close>

definition functionName :: "func \<Rightarrow> string option" where
  "functionName node =
     (case ftype node of
        FunctionDeclaration \<Rightarrow> fid node
      | FunctionExpression \<Rightarrow> fid node
      | _ \<Rightarrow> None)"

text \<open>
  The test \<^verbatim>\<open>node.body.type === "BlockStatement"\<close> of lines 399 and 421: a block body
  is kept, an expression body is wrapped in a block with one return statement.
\<close>

definition blockOf :: "fbody \<Rightarrow> fbody" where
  "blockOf b = (case b of BlockStatement ss \<Rightarrow> BlockStatement ss
                        | ExpressionBody e \<Rightarrow> BlockStatement [ReturnStatement e])"

text \<open>\<^verbatim>\<open>name ?? functionName(node)\<close>\<close>

definition nameOr :: "string option \<Rightarrow> func \<Rightarrow> string option" where
  "nameOr name node = (case name of Some n \<Rightarrow> Some n | None \<Rightarrow> functionName node)"

definition functionDeclarationFrom :: "func \<Rightarrow> string option \<Rightarrow> func" where
  "functionDeclarationFrom node name =
     assignReturnType
       (Func FunctionDeclaration (nameOr name node) (params node) (blockOf (fbody node))
             (generator node) (async node) None)
       (returnType node)"

definition functionExpressionFrom :: "func \<Rightarrow> string option \<Rightarrow> func" where
  "functionExpressionFrom node name =
     assignReturnType
       (Func FunctionExpression (nameOr name node) (params node) (blockOf (fbody node))
             (generator node) (async node) None)
       (returnType node)"

text \<open>
  Lines 433 to 446. \<^verbatim>\<open>t.arrowFunctionExpression(params, body, async)\<close> takes no name and
  no generator flag: the node it builds has neither, which the model writes as \<open>None\<close>
  and \<open>False\<close>. The body is passed as it is.
\<close>

definition arrowFunctionExpressionFrom :: "func \<Rightarrow> func" where
  "arrowFunctionExpressionFrom node =
     assignReturnType
       (Func ArrowFunctionExpression None (params node) (fbody node) False (async node) None)
       (returnType node)"

section \<open>Type entity names (lines 330 to 341)\<close>

fun toTSEntity :: "expr \<Rightarrow> exn + TSEntityName" where
  "toTSEntity (MemberExpression ob (Identifier p a) False) =
     (case toTSEntity ob of
        Inl e \<Rightarrow> Inl e
      | Inr q \<Rightarrow> Inr (TSQualifiedName q p))"
| "toTSEntity (Identifier n a) = Inr (TSEntityIdentifier n)"
| "toTSEntity e = Inl (Error (''Cannot convert to TSEntityName: '' @ expr_type e))"

text \<open>The expressions built solely from identifiers and non-computed member accesses
  whose property is an identifier.\<close>

fun entityShaped :: "expr \<Rightarrow> bool" where
  "entityShaped (Identifier n a) = True"
| "entityShaped (MemberExpression ob (Identifier p a) c) = (\<not> c \<and> entityShaped ob)"
| "entityShaped e = False"

section \<open>The tree as a store\<close>

text \<open>
  Babel reaches the tree through \<^verbatim>\<open>NodePath\<close> objects: \<^verbatim>\<open>path.node\<close> reads the node in
  place and \<^verbatim>\<open>path.replaceWith(n)\<close> puts another one there. A path is an address here
  and the tree is a store from addresses to the node found there, one component for each
  kind of node the rewriter reaches through a path. The node at a path is stored with
  its children; a child that has a path of its own is the reference \<open>ChildAt\<close> to that
  path. Where the source puts a node object into a new node
  (\<^verbatim>\<open>[site.valuePath.node]\<close>), the model puts the node found at the path at that moment:
  a later replacement at that very path does not reach the new node, which holds the old
  object, and a later replacement at the path of a child of the old object does.
\<close>

datatype TSTypeElement =
    TSPropertySignature (key: string) (optional: bool) (typeAnnotation: "tstype option")
  | TSMethodSignature (key: string) (optional: bool)

datatype ModuleExportName = ImportedIdentifier string | ImportedStringLiteral string

datatype specifier =
    ImportSpecifier (local: string) (imported: ModuleExportName)
  | ImportDefaultSpecifier (local: string)
  | ImportNamespaceSpecifier (local: string)

record ast =
  exprAt :: "path \<Rightarrow> expr"
  funcAt :: "path \<Rightarrow> func"
  typeAt :: "path \<Rightarrow> tstype"
  memberAt :: "path \<Rightarrow> TSTypeElement"
  specifierAt :: "path \<Rightarrow> specifier"
  parentPath :: "path \<Rightarrow> path"
  specifiers :: "path \<Rightarrow> specifier list"
  bindingsAt :: "path \<Rightarrow> string list"
  uids :: "string list"

text \<open>
  \<open>exprAt\<close> holds expressions, patterns and parameters, \<open>funcAt\<close> methods and function
  values, \<open>typeAt\<close> types and \<open>memberAt\<close> the members of the props type;
  \<open>specifierAt s p\<close> is the import specifier at \<open>p\<close> and \<open>parentPath s p\<close> the path of
  the import declaration that holds it;
  \<open>specifiers s d\<close> is \<^verbatim>\<open>d.node.specifiers\<close> of the import declaration at \<open>d\<close>;
  \<open>bindingsAt s p\<close> lists the names for which \<^verbatim>\<open>p.scope.getBinding\<close> finds a binding;
  \<open>uids\<close> are the names \<^verbatim>\<open>generateUid\<close> has handed out so far.

  The operations of Babel that the rewriter calls and whose code is Babel's own are
  parameters: renaming a binding throughout a scope, removing the node at a path, and
  choosing an unused name.
\<close>

record babel =
  scope_rename :: "nat \<Rightarrow> string \<Rightarrow> string \<Rightarrow> ast \<Rightarrow> ast"
  path_remove :: "path \<Rightarrow> ast \<Rightarrow> ast"
  generateUid :: "ast \<Rightarrow> path \<Rightarrow> string \<Rightarrow> string"

definition replaceWith :: "path \<Rightarrow> expr \<Rightarrow> ast \<Rightarrow> ast" where
  "replaceWith p e s = s\<lparr>exprAt := (exprAt s)(p := e)\<rparr>"

text \<open>
  The tree a printer finds under a node: the node with its references followed \<open>n\<close>
  levels deep into the store. The function the rewriter returns is read this way in the
  tree the rewriter leaves.
\<close>

primrec emittedExpr :: "nat \<Rightarrow> ast \<Rightarrow> expr \<Rightarrow> expr" where
  "emittedExpr 0 s e = e"
| "emittedExpr (Suc n) s e = emittedExpr n s (fill_expr (exprAt s) e)"

primrec emitted :: "nat \<Rightarrow> ast \<Rightarrow> func \<Rightarrow> func" where
  "emitted 0 s f = f"
| "emitted (Suc n) s f = emitted n s (fill_func (exprAt s) f)"

definition bindE :: "exn + 'a \<Rightarrow> ('a \<Rightarrow> exn + 'b) \<Rightarrow> exn + 'b" where
  "bindE m f = (case m of Inl e \<Rightarrow> Inl e | Inr x \<Rightarrow> f x)"

text \<open>A loop whose body may throw: the first exception ends it.\<close>

fun foldE :: "('a \<Rightarrow> 's \<Rightarrow> exn + 's) \<Rightarrow> 'a list \<Rightarrow> 's \<Rightarrow> exn + 's" where
  "foldE f [] s = Inr s"
| "foldE f (x # xs) s = bindE (f x s) (foldE f xs)"

text \<open>A loop that pushes one statement per element and may throw.\<close>

fun pushEach :: "('a \<Rightarrow> ast \<Rightarrow> exn + (stmt \<times> ast)) \<Rightarrow> 'a list \<Rightarrow> ast \<Rightarrow> exn + (stmt list \<times> ast)" where
  "pushEach f [] s = Inr ([], s)"
| "pushEach f (x # xs) s =
     bindE (f x s) (\<lambda>(d, s1). bindE (pushEach f xs s1) (\<lambda>(ds, s2). Inr (d # ds, s2)))"

section \<open>What the analysis hands over\<close>

text \<open>
  The records of \<^verbatim>\<open>analysis.js\<close>, with the fields \<^verbatim>\<open>index.ts\<close> reads. A field the
  source reads with a non-null assertion (\<^verbatim>\<open>newAliasName!\<close>, \<^verbatim>\<open>localName!\<close>,
  \<^verbatim>\<open>localSetterName!\<close>) has the asserted type. Maps are lists of entries in insertion
  order, the order in which the source iterates them.
\<close>

datatype LibRefKind = Ns | Named

datatype LibRef =
    Global (globalName: string)
  | Import (kind: LibRefKind) (specPath: path)

record ComponentHead =
  superClassRef :: LibRef
  headProps :: "path option"

record PropAlias =
  aliasLocalName :: string
  aliasScope :: nat

record PropAnalysis =
  aliases :: "PropAlias list"
  newAliasName :: string
  propSites :: "path list"
  defaultValue :: "path option"
  typing :: "path option"
  needsAlias :: bool

record PropsAnalysis =
  props :: "(string \<times> PropAnalysis) list"
  hasDefaults :: bool
  sites :: "path list"

text \<open>A state site is tagged \<^verbatim>\<open>"expr"\<close> or \<^verbatim>\<open>"setState"\<close>; the source skips
  a site with any other tag.\<close>

datatype StateSite =
    ExprSite path
  | SetStateSite path path
  | OtherSite string path

datatype StateTypeAnnotation =
    MethodAnnotation "path list" path
  | PathAnnotation path

record StateField =
  localName :: string
  localSetterName :: string
  init :: "path option"
  stateTypeAnnotation :: "StateTypeAnnotation option"
  stateSites :: "StateSite list"

datatype FieldSite =
    FieldExprSite path
  | FieldOtherSite string path

datatype FunctionInit =
    MethodInit path
  | FieldInit path

text \<open>
  Modelled from the spec: the variants of a user-defined field, whose declaration in
  \<^verbatim>\<open>analysis.js\<close> is not among the sources: a bound function, a ref container and a
  direct ref, tagged \<^verbatim>\<open>user_defined_function\<close>, \<^verbatim>\<open>user_defined_ref\<close> and
  \<^verbatim>\<open>user_defined_direct_ref\<close> in the source.
\<close>

datatype UserField =
    UserDefinedFunction (fieldLocalName: string) FunctionInit (fieldTypeAnnotation: "path option")
                        (fieldSites: "FieldSite list")
  | UserDefinedRef (fieldLocalName: string) (fieldTypeAnnotation: "path option")
                   (fieldSites: "FieldSite list")
  | UserDefinedDirectRef (fieldLocalName: string) path (fieldTypeAnnotation: "path option")
                         (fieldSites: "FieldSite list")

record RenderAnalysis =
  renderPath :: path
  renames :: "(nat \<times> string \<times> string) list"

record ComponentBody =
  bodyProps :: PropsAnalysis
  state :: "(string \<times> StateField) list"
  userDefined :: "(string \<times> UserField) list"
  removePaths :: "path list"
  render :: RenderAnalysis

section \<open>Import resolver (lines 343 to 377)\<close>

text \<open>
  Modelled from the spec: \<^verbatim>\<open>importName\<close> of \<^verbatim>\<open>utils.js\<close>, which is not among the
  sources: the name under which a specifier imports, by which the resolver recognises
  that a name is already imported.
\<close>

fun importName :: "ModuleExportName \<Rightarrow> string" where
  "importName (ImportedIdentifier n) = n"
| "importName (ImportedStringLiteral v) = v"

text \<open>The test of line 363.\<close>

fun importsName :: "string \<Rightarrow> specifier \<Rightarrow> bool" where
  "importsName name (ImportSpecifier l i) = (importName i = name)"
| "importsName name sp = False"

text \<open>
  Line 368 chooses the local name; \<^verbatim>\<open>generateUid\<close> registers the name it returns.
  Lines 370 to 375 insert after the last specifier, which is not there when the list is
  empty. The inserted specifier is \<^verbatim>\<open>t.importSpecifier(local, imported)\<close> with an
  identifier named \<^verbatim>\<open>newName\<close> in both places.
\<close>

definition getReactImport :: "string \<Rightarrow> babel \<Rightarrow> LibRef \<Rightarrow> ast \<Rightarrow> exn + (expr \<times> ast)" where
  "getReactImport name babel ref s =
     (case ref of
        Global g \<Rightarrow>
          Inr (MemberExpression (Identifier g None) (Identifier name None) False, s)
      | Import Ns sp \<Rightarrow>
          Inr (MemberExpression (Identifier (local (specifierAt s sp)) None)
                                (Identifier name None) False, s)
      | Import Named sp \<Rightarrow>
          (let decl = parentPath s sp in
           case find (importsName name) (specifiers s decl) of
             Some spec \<Rightarrow> Inr (Identifier (local spec) None, s)
           | None \<Rightarrow>
               (let newName = (if name \<in> set (bindingsAt s decl)
                               then generateUid babel s decl name else name);
                    s1 = (if name \<in> set (bindingsAt s decl)
                          then s\<lparr>uids := newName # uids s\<rparr> else s)
                in if specifiers s1 decl = []
                   then Inl (TypeError ''Cannot read properties of undefined (reading insertAfter)'')
                   else Inr (Identifier newName None,
                             s1\<lparr>specifiers := (specifiers s1)
                                  (decl := specifiers s1 decl
                                           @ [ImportSpecifier newName (ImportedIdentifier newName)])\<rparr>))))"

section \<open>The rewriter (lines 84 to 328)\<close>

text \<open>Lines 88 to 97.\<close>

definition renameAlias :: "babel \<Rightarrow> PropAnalysis \<Rightarrow> PropAlias \<Rightarrow> ast \<Rightarrow> ast" where
  "renameAlias babel prop alias s =
     (if aliasLocalName alias \<noteq> newAliasName prop
      then scope_rename babel (aliasScope alias) (aliasLocalName alias) (newAliasName prop) s
      else s)"

definition renameAliases :: "babel \<Rightarrow> (string \<times> PropAnalysis) list \<Rightarrow> ast \<Rightarrow> ast" where
  "renameAliases babel ps = fold (\<lambda>(n, prop). fold (renameAlias babel prop) (aliases prop)) ps"

text \<open>Lines 98 to 100.\<close>

definition removeLocals :: "babel \<Rightarrow> path list \<Rightarrow> ast \<Rightarrow> ast" where
  "removeLocals babel ps = fold (path_remove babel) ps"

text \<open>Lines 101 to 105.\<close>

definition renameLocals :: "babel \<Rightarrow> (nat \<times> string \<times> string) list \<Rightarrow> ast \<Rightarrow> ast" where
  "renameLocals babel rs = fold (\<lambda>(sc, oldName, newName). scope_rename babel sc oldName newName) rs"

text \<open>The tree when the site rewrites start (after line 105).\<close>

definition prepared :: "babel \<Rightarrow> ComponentBody \<Rightarrow> ast \<Rightarrow> ast" where
  "prepared babel body s =
     renameLocals babel (renames (render body))
       (removeLocals babel (removePaths body)
          (renameAliases babel (props (bodyProps body)) s))"

text \<open>
  Lines 106 to 118. In the second loop the replacement is \<^verbatim>\<open>site.path.node.property\<close>,
  which only a member expression has; \<^verbatim>\<open>replaceWith\<close> throws on a missing node.
\<close>

definition rewritePropsObject :: "path \<Rightarrow> ast \<Rightarrow> exn + ast" where
  "rewritePropsObject p s =
     (case exprAt s p of
        MemberExpression ob pr c \<Rightarrow> Inr (replaceWith p pr s)
      | _ \<Rightarrow> Inl (Error ''You passed path.replaceWith() a falsy node''))"

definition rewriteProp :: "PropAnalysis \<Rightarrow> ast \<Rightarrow> ast" where
  "rewriteProp prop = fold (\<lambda>p. replaceWith p (Identifier (newAliasName prop) None)) (propSites prop)"

definition rewritePropSites :: "PropsAnalysis \<Rightarrow> ast \<Rightarrow> exn + ast" where
  "rewritePropSites pa s =
     (if hasDefaults pa
      then Inr (fold (\<lambda>(n, prop). rewriteProp prop) (props pa) s)
      else foldE rewritePropsObject (sites pa) s)"

text \<open>Lines 119 to 147. The block of lines 140 to 145 binds a constant and does nothing.\<close>

definition widenTypeAnnotation :: "tstype \<Rightarrow> tstype" where
  "widenTypeAnnotation a =
     (case a of
        TSUnionType ts \<Rightarrow>
          (if list_ex (\<lambda>t. t = TSUndefinedKeyword) ts
           then TSUnionType ts
           else TSUnionType (ts @ [TSUndefinedKeyword]))
      | _ \<Rightarrow> TSUnionType [a, TSUndefinedKeyword])"

definition makeOptional :: "TSTypeElement \<Rightarrow> TSTypeElement" where
  "makeOptional m =
     (case m of
        TSPropertySignature k opt ann \<Rightarrow>
          TSPropertySignature k True (map_option widenTypeAnnotation ann)
      | TSMethodSignature k opt \<Rightarrow> TSMethodSignature k True)"

definition widenPropType :: "PropAnalysis \<Rightarrow> ast \<Rightarrow> ast" where
  "widenPropType prop s =
     (case (defaultValue prop, typing prop) of
        (Some dv, Some tp) \<Rightarrow> s\<lparr>memberAt := (memberAt s)(tp := makeOptional (memberAt s tp))\<rparr>
      | _ \<Rightarrow> s)"

definition widenPropTypes :: "(string \<times> PropAnalysis) list \<Rightarrow> ast \<Rightarrow> ast" where
  "widenPropTypes ps = fold (\<lambda>(n, prop). widenPropType prop) ps"

text \<open>Lines 148 to 163.\<close>

fun rewriteStateSite :: "StateField \<Rightarrow> StateSite \<Rightarrow> ast \<Rightarrow> ast" where
  "rewriteStateSite f (ExprSite p) s = replaceWith p (Identifier (localName f) None) s"
| "rewriteStateSite f (SetStateSite p vp) s =
     replaceWith p (CallExpression (Identifier (localSetterName f) None) [exprAt s vp] None) s"
| "rewriteStateSite f (OtherSite tag p) s = s"

definition rewriteStateSites :: "(string \<times> StateField) list \<Rightarrow> ast \<Rightarrow> ast" where
  "rewriteStateSites fs = fold (\<lambda>(n, f). fold (rewriteStateSite f) (stateSites f)) fs"

text \<open>Lines 164 to 185.\<close>

fun fieldReplacement :: "UserField \<Rightarrow> expr" where
  "fieldReplacement (UserDefinedFunction ln i ta ss) = Identifier ln None"
| "fieldReplacement (UserDefinedRef ln ta ss) = Identifier ln None"
| "fieldReplacement (UserDefinedDirectRef ln i ta ss) =
     MemberExpression (Identifier ln None) (Identifier ''current'' None) False"

fun rewriteFieldSite :: "UserField \<Rightarrow> FieldSite \<Rightarrow> ast \<Rightarrow> ast" where
  "rewriteFieldSite f (FieldExprSite p) s = replaceWith p (fieldReplacement f) s"
| "rewriteFieldSite f (FieldOtherSite tag p) s = s"

definition rewriteFieldSites :: "(string \<times> UserField) list \<Rightarrow> ast \<Rightarrow> ast" where
  "rewriteFieldSites fs = fold (\<lambda>(n, f). fold (rewriteFieldSite f) (fieldSites f)) fs"

text \<open>
  Modelled from the spec: \<^verbatim>\<open>assignTypeAnnotation\<close> and \<^verbatim>\<open>assignTypeParameters\<close> of
  \<^verbatim>\<open>utils.js\<close>, which is not among the sources. The spec has a typed variable hold the
  function and the hook call instantiated with the recorded type, so the helpers store
  their second argument in the field they are named after. The source applies the first
  to identifiers and the second to calls only.
\<close>

fun assignTypeAnnotation :: "expr \<Rightarrow> tstype option \<Rightarrow> expr" where
  "assignTypeAnnotation (Identifier n a) ann = Identifier n ann"
| "assignTypeAnnotation e ann = e"

fun assignTypeParameters :: "expr \<Rightarrow> tstype list \<Rightarrow> expr" where
  "assignTypeParameters (CallExpression f xs tp) tps = CallExpression f xs (Some tps)"
| "assignTypeParameters e tps = e"

text \<open>Lines 186 to 210: the destructuring of \<^verbatim>\<open>props\<close>.\<close>

definition propProperty :: "ast \<Rightarrow> string \<times> PropAnalysis \<Rightarrow> objprop" where
  "propProperty s np =
     (case np of (name, prop) \<Rightarrow>
        ObjectProperty (Identifier name None)
          (case defaultValue prop of
             Some dv \<Rightarrow> AssignmentPattern (Identifier (newAliasName prop) None) (exprAt s dv)
           | None \<Rightarrow> Identifier (newAliasName prop) None)
          False
          (name = newAliasName prop))"

definition propsWithAlias :: "PropsAnalysis \<Rightarrow> (string \<times> PropAnalysis) list" where
  "propsWithAlias pa = filter (\<lambda>(n, prop). needsAlias prop) (props pa)"

definition propsPreamble :: "PropsAnalysis \<Rightarrow> ast \<Rightarrow> stmt list" where
  "propsPreamble pa s =
     (if length (propsWithAlias pa) > 0
      then [VariableDeclaration ''const''
              [VariableDeclarator (ObjectPattern (map (propProperty s) (propsWithAlias pa)))
                                  (Identifier ''props'' None)]]
      else [])"

text \<open>Lines 211 to 239: one state declaration.\<close>

definition stateTypeNode :: "ast \<Rightarrow> StateTypeAnnotation \<Rightarrow> tstype" where
  "stateTypeNode s ta =
     (case ta of
        MethodAnnotation ps rt \<Rightarrow> TSFunctionType (map (exprAt s) ps) (typeAt s rt)
      | PathAnnotation p \<Rightarrow> typeAt s p)"

definition stateInitArgs :: "ast \<Rightarrow> StateField \<Rightarrow> expr list" where
  "stateInitArgs s f = (case init f of Some vp \<Rightarrow> [exprAt s vp] | None \<Rightarrow> [])"

definition stateDeclaration :: "bool \<Rightarrow> babel \<Rightarrow> LibRef \<Rightarrow> string \<times> StateField \<Rightarrow> ast \<Rightarrow> exn + (stmt \<times> ast)" where
  "stateDeclaration ts babel ref nf s =
     (case nf of (n, f) \<Rightarrow>
        bindE (getReactImport ''useState'' babel ref s) (\<lambda>(callee, s1).
          let call = CallExpression callee (stateInitArgs s1 f) None
          in Inr (VariableDeclaration ''const''
                    [VariableDeclarator
                       (ArrayPattern [Identifier (localName f) None,
                                      Identifier (localSetterName f) None])
                       (case stateTypeAnnotation f of
                          Some ta \<Rightarrow>
                            (if ts then assignTypeParameters call [stateTypeNode s1 ta] else call)
                        | None \<Rightarrow> call)],
                  s1)))"

text \<open>Lines 240 to 311: one declaration of a user-defined field.\<close>

definition refDeclaration :: "bool \<Rightarrow> string \<Rightarrow> path option \<Rightarrow> expr \<Rightarrow> ast \<Rightarrow> stmt" where
  "refDeclaration ts ln ta call s =
     VariableDeclaration ''const''
       [VariableDeclarator (Identifier ln None)
          (case ta of
             Some tp \<Rightarrow> (if ts then assignTypeParameters call [typeAt s tp] else call)
           | None \<Rightarrow> call)]"

fun fieldDeclaration :: "bool \<Rightarrow> babel \<Rightarrow> LibRef \<Rightarrow> string \<times> UserField \<Rightarrow> ast \<Rightarrow> exn + (stmt \<times> ast)" where
  "fieldDeclaration ts babel ref (n, UserDefinedFunction ln (MethodInit p) ta ss) s =
     Inr (FunctionStatement (functionDeclarationFrom (funcAt s p) (Some ln)), s)"
| "fieldDeclaration ts babel ref (n, UserDefinedFunction ln (FieldInit p) ta ss) s =
     (let methNode = funcAt s p
      in if ftype methNode = FunctionExpression \<and> ta = None
         then Inr (FunctionStatement (functionDeclarationFrom methNode (Some ln)), s)
         else Inr (VariableDeclaration ''const''
                     [VariableDeclarator
                        (assignTypeAnnotation (Identifier ln None) (map_option (typeAt s) ta))
                        (FunctionNode
                           (if ftype methNode = FunctionExpression
                            then functionExpressionFrom methNode None
                            else arrowFunctionExpressionFrom methNode))],
                   s))"
| "fieldDeclaration ts babel ref (n, UserDefinedRef ln ta ss) s =
     bindE (getReactImport ''useRef'' babel ref s) (\<lambda>(callee, s1).
       Inr (refDeclaration ts ln ta (CallExpression callee [NullLiteral] None) s1, s1))"
| "fieldDeclaration ts babel ref (n, UserDefinedDirectRef ln i ta ss) s =
     bindE (getReactImport ''useRef'' babel ref s) (\<lambda>(callee, s1).
       Inr (refDeclaration ts ln ta (CallExpression callee [exprAt s1 i] None) s1, s1))"

record TransformResult =
  funcNode :: func
  typeNode :: "tstype option"

text \<open>
  Lines 312 to 327. The preamble goes before the statements of the render method's
  body, in place; \<^verbatim>\<open>needsProps\<close> of \<^verbatim>\<open>analysis.js\<close> is a parameter. The function
  returned holds the statement objects of the render method and the nodes the preamble
  was built from, which hold their children by reference: \<open>emitted\<close> reads it in the tree
  the rewriter leaves.
\<close>

definition setBody :: "func \<Rightarrow> fbody \<Rightarrow> func" where
  "setBody node b =
     Func (ftype node) (fid node) (params node) b (generator node) (async node) (returnType node)"

definition finish :: "ComponentHead \<Rightarrow> ComponentBody \<Rightarrow> bool \<Rightarrow> babel \<Rightarrow> (ComponentBody \<Rightarrow> bool)
    \<Rightarrow> stmt list \<Rightarrow> ast \<Rightarrow> exn + (TransformResult \<times> ast)" where
  "finish head body ts babel needsProps preamble s =
     (case fbody (funcAt s (renderPath (render body))) of
        ExpressionBody e \<Rightarrow> Inl (TypeError ''bodyNode.body.splice is not a function'')
      | BlockStatement ss \<Rightarrow>
          (let bodyNode = BlockStatement (preamble @ ss);
               rp = renderPath (render body);
               s1 = s\<lparr>funcAt := (funcAt s)(rp := setBody (funcAt s rp) bodyNode)\<rparr>;
               fn = Func ArrowFunctionExpression None
                      (if needsProps body then [Identifier ''props'' None] else [])
                      bodyNode False False None
           in if ts
              then bindE (getReactImport ''FC'' babel (superClassRef head) s1) (\<lambda>(fc, s2).
                   bindE (toTSEntity fc) (\<lambda>ent.
                     Inr (\<lparr>funcNode = fn,
                           typeNode = Some (TSTypeReference ent
                                             (map_option (\<lambda>p. [typeAt s2 p]) (headProps head)))\<rparr>,
                          s2)))
              else Inr (\<lparr>funcNode = fn, typeNode = None\<rparr>, s1)))"

definition transformClass :: "ComponentHead \<Rightarrow> ComponentBody \<Rightarrow> bool \<Rightarrow> babel
    \<Rightarrow> (ComponentBody \<Rightarrow> bool) \<Rightarrow> ast \<Rightarrow> exn + (TransformResult \<times> ast)" where
  "transformClass head body ts babel needsProps s =
     bindE (rewritePropSites (bodyProps body) (prepared babel body s)) (\<lambda>s1.
       let s2 = widenPropTypes (props (bodyProps body)) s1;
           s3 = rewriteStateSites (state body) s2;
           s4 = rewriteFieldSites (userDefined body) s3;
           pre1 = propsPreamble (bodyProps body) s4
       in bindE (pushEach (stateDeclaration ts babel (superClassRef head)) (state body) s4)
            (\<lambda>(pre2, s5).
          bindE (pushEach (fieldDeclaration ts babel (superClassRef head)) (userDefined body) s5)
            (\<lambda>(pre3, s6).
          finish head body ts babel needsProps (pre1 @ pre2 @ pre3) s6)))"

section \<open>The plugin (lines 8 to 77 and 448 to 466)\<close>

datatype CommentType = CommentBlock | CommentLine

record comment =
  commentType :: CommentType
  commentValue :: string
  leading :: "bool option"
  trailing :: "bool option"

text \<open>A node with the comment fields every node may carry; \<open>content\<close> is the rest of
  the node and \<open>original\<close> is the copy recast keeps.\<close>

record 'a node =
  content :: 'a
  leadingComments :: "comment list option"
  innerComments :: "comment list option"
  trailingComments :: "comment list option"
  comments :: "comment list option"
  original :: "'a option"

text \<open>Babel's \<^verbatim>\<open>t.addComment(node, "leading", content)\<close>: a block comment put in front of
  the leading comments of the node.\<close>

definition addComment :: "'a node \<Rightarrow> string \<Rightarrow> 'a node" where
  "addComment n text =
     n\<lparr>leadingComments :=
         Some (\<lparr>commentType = CommentBlock, commentValue = text, leading = None, trailing = None\<rparr>
               # (case leadingComments n of None \<Rightarrow> [] | Some cs \<Rightarrow> cs))\<rparr>"

text \<open>Lines 451 to 466; \<^verbatim>\<open>x ??= v\<close> assigns when \<^verbatim>\<open>x\<close> is missing.\<close>

definition orElse :: "'a option \<Rightarrow> 'a \<Rightarrow> 'a option" where
  "orElse x v = (case x of None \<Rightarrow> Some v | Some y \<Rightarrow> Some y)"

definition markComment :: "bool \<Rightarrow> bool \<Rightarrow> comment \<Rightarrow> comment" where
  "markComment l t c = c\<lparr>leading := orElse (leading c) l, trailing := orElse (trailing c) t\<rparr>"

definition orEmpty :: "'a list option \<Rightarrow> 'a list" where
  "orEmpty xs = (case xs of None \<Rightarrow> [] | Some ys \<Rightarrow> ys)"

definition refreshComments :: "'a node \<Rightarrow> 'a node" where
  "refreshComments n =
     (let ls = map_option (map (markComment True False)) (leadingComments n);
          ts = map_option (map (markComment False True)) (trailingComments n)
      in n\<lparr>leadingComments := ls, trailingComments := ts,
           comments := Some (orEmpty ls @ orEmpty (innerComments n) @ orEmpty ts),
           original := None\<rparr>)"

text \<open>
  The class declaration the visitor is called on: \<open>classId\<close> is \<^verbatim>\<open>path.node.id\<close>, the
  rest of the class is what the analysis reads. The path is either that of a class whose
  parent is no default export, or that of a class inside
  \<^verbatim>\<open>export default\<close>, given with the export declaration that holds it.
\<close>

record ClassDeclaration =
  classId :: "string option"
  classSource :: string

datatype ClassPath =
    Plain "ClassDeclaration node"
  | DefaultExport "ClassDeclaration node node"

fun pathNode :: "ClassPath \<Rightarrow> ClassDeclaration node" where
  "pathNode (Plain c) = c"
| "pathNode (DefaultExport d) = content d"

text \<open>What the visitor does to the tree at the declaration: it leaves the (possibly
  commented) declaration in place, replaces the export declaration by statements, or
  replaces the class node by an expression or a statement.\<close>

datatype outcome =
    Kept ClassPath
  | ReplaceWithMultiple "stmt list"
  | ReplaceWithExpression expr
  | ReplaceWithStatement stmt

text \<open>
  Modelled from the spec: the analysis of \<^verbatim>\<open>analysis.js\<close>, which is not among the
  sources. It is invoked as a pure function: \<^verbatim>\<open>analyzeHead\<close> answers with a head or
  with nothing, \<^verbatim>\<open>analyzeBody\<close> with a body or a thrown exception.
\<close>

record analysis =
  analyzeHead :: "ClassPath \<Rightarrow> ast \<Rightarrow> ComponentHead option"
  analyzeBody :: "ClassPath \<Rightarrow> ComponentHead \<Rightarrow> ast \<Rightarrow> exn + ComponentBody"
  needsProps :: "ComponentBody \<Rightarrow> bool"

definition diagnostic :: "string \<Rightarrow> string" where
  "diagnostic message = '' react-declassify-disable Cannot perform transformation: '' @ message @ '' ''"

text \<open>Lines 26 to 36 and 55 to 65: the variable that holds the function.\<close>

definition componentDeclaration :: "bool \<Rightarrow> string \<Rightarrow> TransformResult \<Rightarrow> stmt" where
  "componentDeclaration ts i r =
     VariableDeclaration ''const''
       [VariableDeclarator
          (if ts then assignTypeAnnotation (Identifier i None) (typeNode r) else Identifier i None)
          (FunctionNode (funcNode r))]"

text \<open>The \<^verbatim>\<open>try\<close> blocks of lines 21 to 43 and 52 to 65. \<^verbatim>\<open>t.cloneNode\<close> of a missing
  identifier is missing, which the builder of the declarator rejects.\<close>

definition tryBlock :: "analysis \<Rightarrow> babel \<Rightarrow> bool \<Rightarrow> ClassPath \<Rightarrow> ComponentHead \<Rightarrow> ast
    \<Rightarrow> exn + (outcome \<times> ast)" where
  "tryBlock an babel ts cp head s =
     bindE (analyzeBody an cp head s) (\<lambda>body.
     bindE (transformClass head body ts babel (needsProps an) s) (\<lambda>(r, s1).
       case cp of
         DefaultExport d \<Rightarrow>
           (case classId (content (pathNode cp)) of
              Some i \<Rightarrow>
                Inr (ReplaceWithMultiple
                       [componentDeclaration ts i r,
                        ExportDefaultDeclaration (Identifier i None)], s1)
            | None \<Rightarrow> Inr (ReplaceWithExpression (FunctionNode (funcNode r)), s1))
       | Plain c \<Rightarrow>
           (case classId (content (pathNode cp)) of
              Some i \<Rightarrow> Inr (ReplaceWithStatement (componentDeclaration ts i r), s1)
            | None \<Rightarrow> Inl (TypeError ''Property id of VariableDeclarator expected node''))))"

text \<open>The \<^verbatim>\<open>catch\<close> clauses of lines 44 to 50 and 66 to 72. The tree of the caught
  case is the one the visitor was called on: the exception carries no tree, a diagnostic
  comes from the analysis, which does not touch the tree, and the rewriter throws none.\<close>

definition catchClause :: "ClassPath \<Rightarrow> ast \<Rightarrow> exn \<Rightarrow> exn + (outcome \<times> ast)" where
  "catchClause cp s e =
     (case e of
        AnalysisError message \<Rightarrow>
          (case cp of
             DefaultExport d \<Rightarrow>
               Inr (Kept (DefaultExport (refreshComments (addComment d (diagnostic message)))), s)
           | Plain c \<Rightarrow>
               Inr (Kept (Plain (refreshComments (addComment c (diagnostic message)))), s))
      | _ \<Rightarrow> Inl e)"

text \<open>The visitor of lines 13 to 74; \<^verbatim>\<open>isTS(state)\<close> is the parameter \<open>ts\<close>.\<close>

definition visitClassDeclaration :: "analysis \<Rightarrow> babel \<Rightarrow> bool \<Rightarrow> ClassPath \<Rightarrow> ast
    \<Rightarrow> exn + (outcome \<times> ast)" where
  "visitClassDeclaration an babel ts cp s =
     (case analyzeHead an cp s of
        None \<Rightarrow> Inr (Kept cp, s)
      | Some head \<Rightarrow>
          (case tryBlock an babel ts cp head s of
             Inl e \<Rightarrow> catchClause cp s e
           | Inr r \<Rightarrow> Inr r))"

section \<open>Predicates used in the statements\<close>



text \<open>
  The paths that lines 106 to 118, 148 to 163 and 164 to 185 replace, in the order of
  the replacements.
\<close>

fun stateSiteTarget :: "StateSite \<Rightarrow> path list" where
  "stateSiteTarget (ExprSite p) = [p]"
| "stateSiteTarget (SetStateSite p vp) = [p]"
| "stateSiteTarget (OtherSite tag p) = []"

fun fieldSiteTarget :: "FieldSite \<Rightarrow> path list" where
  "fieldSiteTarget (FieldExprSite p) = [p]"
| "fieldSiteTarget (FieldOtherSite tag p) = []"

definition propTargets :: "PropsAnalysis \<Rightarrow> path list" where
  "propTargets pa =
     (if hasDefaults pa then concat (map (\<lambda>(n, prop). propSites prop) (props pa)) else sites pa)"

definition stateTargets :: "(string \<times> StateField) list \<Rightarrow> path list" where
  "stateTargets fs = concat (map (\<lambda>(n, f). concat (map stateSiteTarget (stateSites f))) fs)"

definition fieldTargets :: "(string \<times> UserField) list \<Rightarrow> path list" where
  "fieldTargets fs = concat (map (\<lambda>(n, f). concat (map fieldSiteTarget (fieldSites f))) fs)"

definition rewrittenPaths :: "ComponentBody \<Rightarrow> path list" where
  "rewrittenPaths body =
     propTargets (bodyProps body) @ stateTargets (state body) @ fieldTargets (userDefined body)"

text \<open>
  An expression that refers to a name of the framework the way the superclass was
  referenced: the member of that name of the global or of the namespace, or the local
  name of the specifier that imports that name in the declaration the superclass was
  imported by.
\<close>

definition refersTo :: "ast \<Rightarrow> LibRef \<Rightarrow> string \<Rightarrow> expr \<Rightarrow> bool" where
  "refersTo s ref name e =
     (case ref of
        Global g \<Rightarrow> e = MemberExpression (Identifier g None) (Identifier name None) False
      | Import Ns sp \<Rightarrow>
          e = MemberExpression (Identifier (local (specifierAt s sp)) None)
                               (Identifier name None) False
      | Import Named sp \<Rightarrow>
          (case find (importsName name) (specifiers s (parentPath s sp)) of
             Some spec \<Rightarrow> e = Identifier (local spec) None
           | None \<Rightarrow> False))"

text \<open>
  A name of the framework collides: the superclass was imported by name, the declaration
  does not import the name yet, and a binding of that name is in scope there.
\<close>

definition collides :: "ast \<Rightarrow> LibRef \<Rightarrow> string \<Rightarrow> bool" where
  "collides s ref name =
     (case ref of
        Global g \<Rightarrow> False
      | Import Ns sp \<Rightarrow> False
      | Import Named sp \<Rightarrow>
          find (importsName name) (specifiers s (parentPath s sp)) = None
          \<and> name \<in> set (bindingsAt s (parentPath s sp)))"

text \<open>The callee of a hook call in the tree \<open>s\<close> of a run that started the preamble in
  the tree \<open>s0\<close>: it refers to the name, unless the name collided.\<close>

definition hookCallee :: "ast \<Rightarrow> ast \<Rightarrow> LibRef \<Rightarrow> string \<Rightarrow> expr \<Rightarrow> bool" where
  "hookCallee s0 s ref name e = (collides s0 ref name \<or> refersTo s ref name e)"

text \<open>The declaration \<^verbatim>\<open>const [localName, localSetterName] = callee(init)\<close> of a state
  field, with a callee that is \<open>ok\<close> and with the hook instantiated by the recorded type
  in TypeScript mode.\<close>

definition stateHookDeclaration :: "(expr \<Rightarrow> bool) \<Rightarrow> ast \<Rightarrow> bool \<Rightarrow> string \<times> StateField \<Rightarrow> stmt \<Rightarrow> bool" where
  "stateHookDeclaration ok s ts nf d =
     (case d of
        VariableDeclaration k [VariableDeclarator target (CallExpression callee args tp)] \<Rightarrow>
          k = ''const''
          \<and> target = ArrayPattern [Identifier (localName (snd nf)) None,
                                   Identifier (localSetterName (snd nf)) None]
          \<and> ok callee
          \<and> args = (case init (snd nf) of Some vp \<Rightarrow> [exprAt s vp] | None \<Rightarrow> [])
          \<and> tp = (if ts then map_option (\<lambda>ta. [stateTypeNode s ta]) (stateTypeAnnotation (snd nf))
                  else None)
      | _ \<Rightarrow> False)"

text \<open>The declaration \<^verbatim>\<open>const localName = callee(seed)\<close> of a ref, with a callee that is
  \<open>ok\<close>.\<close>

definition refHookDeclaration :: "(expr \<Rightarrow> bool) \<Rightarrow> ast \<Rightarrow> bool \<Rightarrow> string \<Rightarrow> path option \<Rightarrow> expr \<Rightarrow> stmt \<Rightarrow> bool" where
  "refHookDeclaration ok s ts ln ta seed d =
     (case d of
        VariableDeclaration k [VariableDeclarator target (CallExpression callee args tp)] \<Rightarrow>
          k = ''const''
          \<and> target = Identifier ln None
          \<and> ok callee
          \<and> args = [seed]
          \<and> tp = (if ts then map_option (\<lambda>p. [typeAt s p]) ta else None)
      | _ \<Rightarrow> False)"

text \<open>The name a statement declares.\<close>

fun declaredName :: "stmt \<Rightarrow> string option" where
  "declaredName (VariableDeclaration k [VariableDeclarator (Identifier n a) i]) = Some n"
| "declaredName (FunctionStatement f) = fid f"
| "declaredName d = None"

text \<open>The declaration of a user-defined field: it declares the local name of the field,
  and that of a ref container or of a direct ref is a ref-hook declaration seeded with
  \<^verbatim>\<open>null\<close> or with the node of the initial value.\<close>

fun fieldHookDeclaration :: "(expr \<Rightarrow> bool) \<Rightarrow> ast \<Rightarrow> bool \<Rightarrow> string \<times> UserField \<Rightarrow> stmt \<Rightarrow> bool" where
  "fieldHookDeclaration ok s ts (n, UserDefinedFunction ln i ta ss) d = (declaredName d = Some ln)"
| "fieldHookDeclaration ok s ts (n, UserDefinedRef ln ta ss) d =
     refHookDeclaration ok s ts ln ta NullLiteral d"
| "fieldHookDeclaration ok s ts (n, UserDefinedDirectRef ln i ta ss) d =
     refHookDeclaration ok s ts ln ta (exprAt s i) d"

text \<open>The tree changes by import insertions only.\<close>

definition importsGrow :: "ast \<Rightarrow> ast \<Rightarrow> bool" where
  "importsGrow s s' =
     (exprAt s' = exprAt s \<and> typeAt s' = typeAt s
      \<and> memberAt s' = memberAt s \<and> specifierAt s' = specifierAt s
      \<and> parentPath s' = parentPath s \<and> bindingsAt s' = bindingsAt s
      \<and> (\<forall>d. \<exists>ys. specifiers s' d = specifiers s d @ ys))"

text \<open>The node that lines 152 and 155 to 160 put at the target of a state site.\<close>

fun stateReplacement :: "StateField \<Rightarrow> StateSite \<Rightarrow> ast \<Rightarrow> expr" where
  "stateReplacement f (ExprSite p) s = Identifier (localName f) None"
| "stateReplacement f (SetStateSite p vp) s =
     CallExpression (Identifier (localSetterName f) None) [exprAt s vp] None"
| "stateReplacement f (OtherSite tag p) s = exprAt s p"

section \<open>A component to run the rewriter on\<close>

text \<open>
  The tree of the class component

  \<^verbatim>\<open>class Counter extends Component {\<close>\<^verbatim>\<open> state = { count: 0 };\<close>
  \<^verbatim>\<open> inputRef = createRef(); total = 42;\<close>
  \<^verbatim>\<open> handleClick = () => this.setState({count: this.state.count + 1});\<close>
  \<^verbatim>\<open> render() { return <div ref={this.inputRef} onClick={this.handleClick}>\<close>
  \<^verbatim>\<open>{this.state.count}{this.total}{this.props.foo}</div>; } }\<close>

  with a prop \<^verbatim>\<open>foo\<close> of type \<^verbatim>\<open>number\<close> and default \<^verbatim>\<open>1\<close>. The numbers are the paths
  the analysis recorded: 1 and 4 are the two reads of \<^verbatim>\<open>this.state.count\<close>, in the
  render method and in the handler, 2 is the call of \<^verbatim>\<open>setState\<close> and 3 its value
  \<^verbatim>\<open>this.state.count + 1\<close>, 5 is \<^verbatim>\<open>this.props.foo\<close> and 9 the \<^verbatim>\<open>this.props\<close> in it, 6, 7
  and 8 are the reads of the three fields, 12, 13 and 15 the initial values \<^verbatim>\<open>0\<close>, \<^verbatim>\<open>1\<close>
  and \<^verbatim>\<open>42\<close>, 10 the render method and 11 the handler. Each of these nodes is held by
  its parent as a reference. The base class is imported by name with
  \<^verbatim>\<open>import { Component } from "react"\<close>. The method at path 16 is the render method
  \<^verbatim>\<open>render() { return this.props.foo; }\<close> of a second component over the same nodes.
\<close>

definition thisExpression :: expr where
  "thisExpression = OtherExpression ''ThisExpression'' ''this''"

definition exampleAst :: ast where
  "exampleAst =
     \<lparr>exprAt = (\<lambda>p. thisExpression)
        (1 := MemberExpression (MemberExpression thisExpression (Identifier ''state'' None) False)
                               (Identifier ''count'' None) False,
         2 := CallExpression (MemberExpression thisExpression (Identifier ''setState'' None) False)
                [CompoundExpression ''ObjectExpression'' ''{}''
                   [CompoundExpression ''ObjectProperty'' ''count'' [ChildAt 3]]]
                None,
         3 := CompoundExpression ''BinaryExpression'' ''+''
                [ChildAt 4, OtherExpression ''NumericLiteral'' ''1''],
         4 := MemberExpression (MemberExpression thisExpression (Identifier ''state'' None) False)
                               (Identifier ''count'' None) False,
         5 := MemberExpression (ChildAt 9) (Identifier ''foo'' None) False,
         6 := MemberExpression thisExpression (Identifier ''inputRef'' None) False,
         7 := MemberExpression thisExpression (Identifier ''handleClick'' None) False,
         8 := MemberExpression thisExpression (Identifier ''total'' None) False,
         9 := MemberExpression thisExpression (Identifier ''props'' None) False,
         12 := OtherExpression ''NumericLiteral'' ''0'',
         13 := OtherExpression ''NumericLiteral'' ''1'',
         15 := OtherExpression ''NumericLiteral'' ''42''),
      funcAt = (\<lambda>p. Func ClassMethod None []
                          (BlockStatement
                             [ReturnStatement
                                (CompoundExpression ''JSXElement'' ''div''
                                   [ChildAt 6, ChildAt 7, ChildAt 1, ChildAt 8, ChildAt 5])])
                          False False None)
        (11 := Func ArrowFunctionExpression None [] (ExpressionBody (ChildAt 2)) False False None,
         16 := Func ClassMethod None [] (BlockStatement [ReturnStatement (ChildAt 5)])
                 False False None),
      typeAt = (\<lambda>p. OtherType ''TSNumberKeyword''),
      memberAt = (\<lambda>p. TSPropertySignature ''foo'' False (Some (OtherType ''TSNumberKeyword''))),
      specifierAt = (\<lambda>p. ImportSpecifier ''Component'' (ImportedIdentifier ''Component'')),
      parentPath = (\<lambda>p. 21),
      specifiers = (\<lambda>p. [ImportSpecifier ''Component'' (ImportedIdentifier ''Component'')]),
      bindingsAt = (\<lambda>p. [''Component'']),
      uids = []\<rparr>"

text \<open>Renaming and removal leave this tree as it is; the unused name for \<^verbatim>\<open>n\<close> is
  \<^verbatim>\<open>_n\<close>, or \<^verbatim>\<open>_n2\<close> when \<^verbatim>\<open>_n\<close> is taken, the first two names Babel tries.\<close>

definition exampleBabel :: babel where
  "exampleBabel =
     \<lparr>scope_rename = (\<lambda>sc a b s. s),
      path_remove = (\<lambda>p s. s),
      generateUid = (\<lambda>s p n. if (CHR ''_'' # n) \<in> set (uids s) \<or> (CHR ''_'' # n) \<in> set (bindingsAt s p)
                               then CHR ''_'' # n @ ''2'' else CHR ''_'' # n)\<rparr>"

definition exampleHead :: ComponentHead where
  "exampleHead = \<lparr>superClassRef = Import Named 20, headProps = None\<rparr>"

definition exampleBody :: ComponentBody where
  "exampleBody =
     \<lparr>bodyProps =
        \<lparr>props = [(''foo'', \<lparr>aliases = [], newAliasName = ''foo'', propSites = [5],
                             defaultValue = Some 13, typing = Some 14, needsAlias = True\<rparr>)],
         hasDefaults = True, sites = []\<rparr>,
      state = [(''count'', \<lparr>localName = ''count'', localSetterName = ''setCount'', init = Some 12,
                            stateTypeAnnotation = None,
                            stateSites = [ExprSite 1, SetStateSite 2 3, ExprSite 4]\<rparr>)],
      userDefined =
        [(''handleClick'', UserDefinedFunction ''handleClick'' (FieldInit 11) None [FieldExprSite 7]),
         (''inputRef'', UserDefinedRef ''inputRef'' None [FieldExprSite 6]),
         (''total'', UserDefinedDirectRef ''total'' 15 None [FieldExprSite 8])],
      removePaths = [],
      render = \<lparr>renderPath = 10, renames = []\<rparr>\<rparr>"

definition exampleNeedsProps :: "ComponentBody \<Rightarrow> bool" where
  "exampleNeedsProps b = True"

text \<open>What the rewriter makes of it: the function it returns, whose nodes hold their
  children by reference, and the tree it leaves.\<close>

definition examplePreamble :: "stmt list" where
  "examplePreamble =
     [VariableDeclaration ''const''
        [VariableDeclarator
           (ObjectPattern
              [ObjectProperty (Identifier ''foo'' None)
                 (AssignmentPattern (Identifier ''foo'' None) (OtherExpression ''NumericLiteral'' ''1''))
                 False True])
           (Identifier ''props'' None)],
      VariableDeclaration ''const''
        [VariableDeclarator
           (ArrayPattern [Identifier ''count'' None, Identifier ''setCount'' None])
           (CallExpression (Identifier ''useState'' None) [OtherExpression ''NumericLiteral'' ''0''] None)],
      VariableDeclaration ''const''
        [VariableDeclarator (Identifier ''handleClick'' None)
           (FunctionNode
              (Func ArrowFunctionExpression None [] (ExpressionBody (ChildAt 2)) False False None))],
      VariableDeclaration ''const''
        [VariableDeclarator (Identifier ''inputRef'' None)
           (CallExpression (Identifier ''useRef'' None) [NullLiteral] None)],
      VariableDeclaration ''const''
        [VariableDeclarator (Identifier ''total'' None)
           (CallExpression (Identifier ''useRef'' None) [OtherExpression ''NumericLiteral'' ''42''] None)]]"

definition exampleResult :: TransformResult where
  "exampleResult =
     \<lparr>funcNode = Func ArrowFunctionExpression None [Identifier ''props'' None]
                   (BlockStatement
                      (examplePreamble
                       @ [ReturnStatement
                            (CompoundExpression ''JSXElement'' ''div''
                               [ChildAt 6, ChildAt 7, ChildAt 1, ChildAt 8, ChildAt 5])]))
                   False False None,
      typeNode = None\<rparr>"

definition exampleFinal :: ast where
  "exampleFinal =
     exampleAst
       \<lparr>exprAt := (exprAt exampleAst)
          (5 := Identifier ''foo'' None,
           1 := Identifier ''count'' None,
           2 := CallExpression (Identifier ''setCount'' None)
                  [CompoundExpression ''BinaryExpression'' ''+''
                     [ChildAt 4, OtherExpression ''NumericLiteral'' ''1'']]
                  None,
           4 := Identifier ''count'' None,
           7 := Identifier ''handleClick'' None,
           6 := Identifier ''inputRef'' None,
           8 := MemberExpression (Identifier ''total'' None) (Identifier ''current'' None) False),
        funcAt := (funcAt exampleAst)
          (10 := Func ClassMethod None []
                   (BlockStatement
                      (examplePreamble
                       @ [ReturnStatement
                            (CompoundExpression ''JSXElement'' ''div''
                               [ChildAt 6, ChildAt 7, ChildAt 1, ChildAt 8, ChildAt 5])]))
                   False False None),
        memberAt := (memberAt exampleAst)
          (14 := TSPropertySignature ''foo'' True
                   (Some (TSUnionType [OtherType ''TSNumberKeyword'', TSUndefinedKeyword]))),
        specifiers := (specifiers exampleAst)
          (21 := [ImportSpecifier ''Component'' (ImportedIdentifier ''Component''),
                  ImportSpecifier ''useState'' (ImportedIdentifier ''useState''),
                  ImportSpecifier ''useRef'' (ImportedIdentifier ''useRef'')])\<rparr>"

text \<open>The function as a printer finds it in that tree:

  \<^verbatim>\<open>(props) => { const {foo = 1} = props; const [count, setCount] = useState(0);\<close>
  \<^verbatim>\<open> const handleClick = () => setCount(count + 1);\<close>
  \<^verbatim>\<open> const inputRef = useRef(null); const total = useRef(42);\<close>
  \<^verbatim>\<open> return <div ref={inputRef} onClick={handleClick}>{count}{total.current}{foo}</div>; }\<close>
\<close>

definition exampleOutput :: func where
  "exampleOutput =
     Func ArrowFunctionExpression None [Identifier ''props'' None]
       (BlockStatement
          [VariableDeclaration ''const''
             [VariableDeclarator
                (ObjectPattern
                   [ObjectProperty (Identifier ''foo'' None)
                      (AssignmentPattern (Identifier ''foo'' None)
                         (OtherExpression ''NumericLiteral'' ''1''))
                      False True])
                (Identifier ''props'' None)],
           VariableDeclaration ''const''
             [VariableDeclarator
                (ArrayPattern [Identifier ''count'' None, Identifier ''setCount'' None])
                (CallExpression (Identifier ''useState'' None)
                   [OtherExpression ''NumericLiteral'' ''0''] None)],
           VariableDeclaration ''const''
             [VariableDeclarator (Identifier ''handleClick'' None)
                (FunctionNode
                   (Func ArrowFunctionExpression None []
                      (ExpressionBody
                         (CallExpression (Identifier ''setCount'' None)
                            [CompoundExpression ''BinaryExpression'' ''+''
                               [Identifier ''count'' None, OtherExpression ''NumericLiteral'' ''1'']]
                            None))
                      False False None))],
           VariableDeclaration ''const''
             [VariableDeclarator (Identifier ''inputRef'' None)
                (CallExpression (Identifier ''useRef'' None) [NullLiteral] None)],
           VariableDeclaration ''const''
             [VariableDeclarator (Identifier ''total'' None)
                (CallExpression (Identifier ''useRef'' None)
                   [OtherExpression ''NumericLiteral'' ''42''] None)],
           ReturnStatement
             (CompoundExpression ''JSXElement'' ''div''
                [Identifier ''inputRef'' None,
                 Identifier ''handleClick'' None,
                 Identifier ''count'' None,
                 MemberExpression (Identifier ''total'' None) (Identifier ''current'' None) False,
                 Identifier ''foo'' None])])
       False False None"

text \<open>
  The second component, which only reads \<^verbatim>\<open>this.props.foo\<close>, without a default: the
  analysis records the access \<^verbatim>\<open>this.props\<close> at path 9, and the function reads
  \<^verbatim>\<open>(props) => { return props.foo; }\<close> in the tree the rewriter leaves.
\<close>

definition propsOnlyBody :: ComponentBody where
  "propsOnlyBody =
     \<lparr>bodyProps =
        \<lparr>props = [(''foo'', \<lparr>aliases = [], newAliasName = ''foo'', propSites = [5],
                             defaultValue = None, typing = Some 14, needsAlias = False\<rparr>)],
         hasDefaults = False, sites = [9]\<rparr>,
      state = [],
      userDefined = [],
      removePaths = [],
      render = \<lparr>renderPath = 16, renames = []\<rparr>\<rparr>"

definition propsOnlyResult :: TransformResult where
  "propsOnlyResult =
     \<lparr>funcNode = Func ArrowFunctionExpression None [Identifier ''props'' None]
                   (BlockStatement [ReturnStatement (ChildAt 5)]) False False None,
      typeNode = None\<rparr>"

definition propsOnlyFinal :: ast where
  "propsOnlyFinal =
     exampleAst
       \<lparr>exprAt := (exprAt exampleAst)(9 := Identifier ''props'' None),
        funcAt := (funcAt exampleAst)
          (16 := Func ClassMethod None [] (BlockStatement [ReturnStatement (ChildAt 5)])
                   False False None)\<rparr>"

definition propsOnlyOutput :: func where
  "propsOnlyOutput =
     Func ArrowFunctionExpression None [Identifier ''props'' None]
       (BlockStatement
          [ReturnStatement
             (MemberExpression (Identifier ''props'' None) (Identifier ''foo'' None) False)])
       False False None"

text \<open>
  A third component over the same nodes, with two state fields \<^verbatim>\<open>count\<close> and \<^verbatim>\<open>step\<close>,
  whose handler is \<^verbatim>\<open>() => this.setState({count: this.state.step})\<close> and whose render
  method, at path 17, is \<^verbatim>\<open>render() { return <button onClick={this.handleClick}>\<close>
  \<^verbatim>\<open>{this.state.count}</button>; }\<close>: the value of the update, at path 3, is
  itself a read site of \<^verbatim>\<open>step\<close>.
\<close>

definition nestedAst :: ast where
  "nestedAst =
     exampleAst
       \<lparr>exprAt := (exprAt exampleAst)
          (3 := MemberExpression (MemberExpression thisExpression (Identifier ''state'' None) False)
                                 (Identifier ''step'' None) False),
        funcAt := (funcAt exampleAst)
          (17 := Func ClassMethod None []
                   (BlockStatement
                      [ReturnStatement
                         (CompoundExpression ''JSXElement'' ''button'' [ChildAt 7, ChildAt 1])])
                   False False None)\<rparr>"

definition nestedBody :: ComponentBody where
  "nestedBody =
     \<lparr>bodyProps = \<lparr>props = [], hasDefaults = False, sites = []\<rparr>,
      state = [(''count'', \<lparr>localName = ''count'', localSetterName = ''setCount'', init = Some 12,
                            stateTypeAnnotation = None,
                            stateSites = [ExprSite 1, SetStateSite 2 3]\<rparr>),
               (''step'', \<lparr>localName = ''step'', localSetterName = ''setStep'', init = Some 13,
                           stateTypeAnnotation = None,
                           stateSites = [ExprSite 3]\<rparr>)],
      userDefined =
        [(''handleClick'', UserDefinedFunction ''handleClick'' (FieldInit 11) None [FieldExprSite 7])],
      removePaths = [],
      render = \<lparr>renderPath = 17, renames = []\<rparr>\<rparr>"

definition noProps :: "ComponentBody \<Rightarrow> bool" where
  "noProps b = False"

text \<open>What the rewriter makes of it, with the callees of the two hook calls named
  \<open>hook1\<close> and \<open>hook2\<close>.\<close>

definition nestedPreamble :: "string \<Rightarrow> string \<Rightarrow> stmt list" where
  "nestedPreamble hook1 hook2 =
     [VariableDeclaration ''const''
        [VariableDeclarator
           (ArrayPattern [Identifier ''count'' None, Identifier ''setCount'' None])
           (CallExpression (Identifier hook1 None) [OtherExpression ''NumericLiteral'' ''0''] None)],
      VariableDeclaration ''const''
        [VariableDeclarator
           (ArrayPattern [Identifier ''step'' None, Identifier ''setStep'' None])
           (CallExpression (Identifier hook2 None) [OtherExpression ''NumericLiteral'' ''1''] None)],
      VariableDeclaration ''const''
        [VariableDeclarator (Identifier ''handleClick'' None)
           (FunctionNode
              (Func ArrowFunctionExpression None [] (ExpressionBody (ChildAt 2)) False False None))]]"

definition nestedResult :: "string \<Rightarrow> string \<Rightarrow> TransformResult" where
  "nestedResult hook1 hook2 =
     \<lparr>funcNode = Func ArrowFunctionExpression None []
                   (BlockStatement
                      (nestedPreamble hook1 hook2
                       @ [ReturnStatement
                            (CompoundExpression ''JSXElement'' ''button'' [ChildAt 7, ChildAt 1])]))
                   False False None,
      typeNode = None\<rparr>"

definition nestedFinal :: ast where
  "nestedFinal =
     nestedAst
       \<lparr>exprAt := (exprAt nestedAst)
          (1 := Identifier ''count'' None,
           2 := CallExpression (Identifier ''setCount'' None)
                  [MemberExpression
                     (MemberExpression thisExpression (Identifier ''state'' None) False)
                     (Identifier ''step'' None) False]
                  None,
           3 := Identifier ''step'' None,
           7 := Identifier ''handleClick'' None),
        funcAt := (funcAt nestedAst)
          (17 := Func ClassMethod None []
                   (BlockStatement
                      (nestedPreamble ''useState'' ''useState''
                       @ [ReturnStatement
                            (CompoundExpression ''JSXElement'' ''button'' [ChildAt 7, ChildAt 1])]))
                   False False None),
        specifiers := (specifiers nestedAst)
          (21 := [ImportSpecifier ''Component'' (ImportedIdentifier ''Component''),
                  ImportSpecifier ''useState'' (ImportedIdentifier ''useState'')])\<rparr>"

text \<open>The function as a printer finds it in that tree, which still reads
  \<^verbatim>\<open>this.state.step\<close>:

  \<^verbatim>\<open>() => { const [count, setCount] = hook1(0); const [step, setStep] = hook2(1);\<close>
  \<^verbatim>\<open> const handleClick = () => setCount(this.state.step);\<close>
  \<^verbatim>\<open> return <button onClick={handleClick}>{count}</button>; }\<close>\<close>

definition nestedOutput :: "string \<Rightarrow> string \<Rightarrow> func" where
  "nestedOutput hook1 hook2 =
     Func ArrowFunctionExpression None []
       (BlockStatement
          [VariableDeclaration ''const''
             [VariableDeclarator
                (ArrayPattern [Identifier ''count'' None, Identifier ''setCount'' None])
                (CallExpression (Identifier hook1 None)
                   [OtherExpression ''NumericLiteral'' ''0''] None)],
           VariableDeclaration ''const''
             [VariableDeclarator
                (ArrayPattern [Identifier ''step'' None, Identifier ''setStep'' None])
                (CallExpression (Identifier hook2 None)
                   [OtherExpression ''NumericLiteral'' ''1''] None)],
           VariableDeclaration ''const''
             [VariableDeclarator (Identifier ''handleClick'' None)
                (FunctionNode
                   (Func ArrowFunctionExpression None []
                      (ExpressionBody
                         (CallExpression (Identifier ''setCount'' None)
                            [MemberExpression
                               (MemberExpression thisExpression (Identifier ''state'' None) False)
                               (Identifier ''step'' None) False]
                            None))
                      False False None))],
           ReturnStatement
             (CompoundExpression ''JSXElement'' ''button''
                [Identifier ''handleClick'' None, Identifier ''count'' None])])
       False False None"

text \<open>The same component with a binding named \<^verbatim>\<open>useState\<close> in scope of the import
  declaration: the two state declarations call \<^verbatim>\<open>_useState\<close> and \<^verbatim>\<open>_useState2\<close>, and
  the import declaration ends as
  \<^verbatim>\<open>import { Component, _useState, _useState2 } from "react"\<close>.\<close>

definition shadowedAst :: ast where
  "shadowedAst = nestedAst\<lparr>bindingsAt := (\<lambda>p. [''Component'', ''useState''])\<rparr>"

definition shadowedFinal :: ast where
  "shadowedFinal =
     nestedFinal
       \<lparr>funcAt := (funcAt nestedAst)
          (17 := Func ClassMethod None []
                   (BlockStatement
                      (nestedPreamble ''_useState'' ''_useState2''
                       @ [ReturnStatement
                            (CompoundExpression ''JSXElement'' ''button'' [ChildAt 7, ChildAt 1])]))
                   False False None),
        specifiers := (specifiers nestedAst)
          (21 := [ImportSpecifier ''Component'' (ImportedIdentifier ''Component''),
                  ImportSpecifier ''_useState'' (ImportedIdentifier ''_useState''),
                  ImportSpecifier ''_useState2'' (ImportedIdentifier ''_useState2'')]),
        bindingsAt := (\<lambda>p. [''Component'', ''useState'']),
        uids := [''_useState2'', ''_useState'']\<rparr>"

text \<open>A body whose props site is no member expression: the rewriter throws.\<close>

definition brokenBody :: ComponentBody where
  "brokenBody = propsOnlyBody\<lparr>bodyProps := (bodyProps propsOnlyBody)\<lparr>sites := [12]\<rparr>\<rparr>"

text \<open>The class declaration \<^verbatim>\<open>class Counter\<close>, alone, under \<^verbatim>\<open>export default\<close>, and
  without a name under \<^verbatim>\<open>export default\<close>; an analysis that accepts it, one that reports
  a diagnostic, one that fails otherwise and one whose body makes the rewriter throw.\<close>

definition counterClass :: "ClassDeclaration node" where
  "counterClass =
     \<lparr>content = \<lparr>classId = Some ''Counter'', classSource = ''extends Component { render() {} }''\<rparr>,
      leadingComments = None, innerComments = None, trailingComments = None,
      comments = None,
      original = Some \<lparr>classId = Some ''Counter'', classSource = ''extends Component { render() {} }''\<rparr>\<rparr>"

definition anonymousClass :: "ClassDeclaration node" where
  "anonymousClass = counterClass\<lparr>content := (content counterClass)\<lparr>classId := None\<rparr>\<rparr>"

definition exported :: "ClassDeclaration node \<Rightarrow> ClassDeclaration node node" where
  "exported c =
     \<lparr>content = c, leadingComments = None, innerComments = None, trailingComments = None,
      comments = None, original = None\<rparr>"

definition exampleAnalysis :: analysis where
  "exampleAnalysis =
     \<lparr>analyzeHead = (\<lambda>cp s. Some exampleHead),
      analyzeBody = (\<lambda>cp head s. Inr exampleBody),
      needsProps = exampleNeedsProps\<rparr>"




text \<open>The example tree with a binding named \<^verbatim>\<open>useState\<close> in scope, and the trees after
  one and after two requests for \<^verbatim>\<open>useState\<close>.\<close>

definition collidingAst :: ast where
  "collidingAst = exampleAst\<lparr>bindingsAt := (\<lambda>p. [''Component'', ''useState''])\<rparr>"

definition afterFirstRequest :: ast where
  "afterFirstRequest =
     collidingAst
       \<lparr>specifiers := (specifiers collidingAst)
          (21 := [ImportSpecifier ''Component'' (ImportedIdentifier ''Component''),
                  ImportSpecifier ''_useState'' (ImportedIdentifier ''_useState'')]),
        uids := [''_useState'']\<rparr>"

definition afterSecondRequest :: ast where
  "afterSecondRequest =
     collidingAst
       \<lparr>specifiers := (specifiers collidingAst)
          (21 := [ImportSpecifier ''Component'' (ImportedIdentifier ''Component''),
                  ImportSpecifier ''_useState'' (ImportedIdentifier ''_useState''),
                  ImportSpecifier ''_useState2'' (ImportedIdentifier ''_useState2'')]),
        uids := [''_useState2'', ''_useState'']\<rparr>"

section \<open>Properties of the node normalizer\<close>

text \<open>
  C6, counterexample: the conversion to an arrow expression leaves the expression body
  of the arrow \<^verbatim>\<open>() => 1\<close> as it is; it does not become a block with a return statement.
\<close>

theorem C6_counterexample:
  "fbody (arrowFunctionExpressionFrom
            (Func ArrowFunctionExpression None []
                  (ExpressionBody (OtherExpression ''NumericLiteral'' ''1'')) False False None))
     = ExpressionBody (OtherExpression ''NumericLiteral'' ''1'')
   \<and> fbody (arrowFunctionExpressionFrom
            (Func ArrowFunctionExpression None []
                  (ExpressionBody (OtherExpression ''NumericLiteral'' ''1'')) False False None))
     \<noteq> BlockStatement [ReturnStatement (OtherExpression ''NumericLiteral'' ''1'')]"
  by (simp add: arrowFunctionExpressionFrom_def assignReturnType_def)

text \<open>
  C6, amended: the three conversions are total functions. The conversions to a function
  declaration and to a function expression turn an expression body into a block with one
  return statement, keep a block body, and carry over the parameters, the generator
  flag, the async flag and the return type. The conversion to an arrow expression keeps
  the body as it is and carries over the parameters, the async flag and the return type.
\<close>

theorem C6_normalizers:
  "ftype (functionDeclarationFrom node name) = FunctionDeclaration
   \<and> fbody (functionDeclarationFrom node name)
       = (case fbody node of BlockStatement ss \<Rightarrow> BlockStatement ss
                           | ExpressionBody e \<Rightarrow> BlockStatement [ReturnStatement e])
   \<and> params (functionDeclarationFrom node name) = params node
   \<and> generator (functionDeclarationFrom node name) = generator node
   \<and> async (functionDeclarationFrom node name) = async node
   \<and> returnType (functionDeclarationFrom node name) = returnType node
   \<and> ftype (functionExpressionFrom node name) = FunctionExpression
   \<and> fbody (functionExpressionFrom node name)
       = (case fbody node of BlockStatement ss \<Rightarrow> BlockStatement ss
                           | ExpressionBody e \<Rightarrow> BlockStatement [ReturnStatement e])
   \<and> params (functionExpressionFrom node name) = params node
   \<and> generator (functionExpressionFrom node name) = generator node
   \<and> async (functionExpressionFrom node name) = async node
   \<and> returnType (functionExpressionFrom node name) = returnType node
   \<and> ftype (arrowFunctionExpressionFrom node) = ArrowFunctionExpression
   \<and> fbody (arrowFunctionExpressionFrom node) = fbody node
   \<and> params (arrowFunctionExpressionFrom node) = params node
   \<and> async (arrowFunctionExpressionFrom node) = async node
   \<and> returnType (arrowFunctionExpressionFrom node) = returnType node"
  by (simp add: functionDeclarationFrom_def functionExpressionFrom_def
                arrowFunctionExpressionFrom_def assignReturnType_def blockOf_def)

section \<open>Properties of the conversion to a type entity name\<close>

lemma entityShaped_computed: "\<not> entityShaped (MemberExpression ob pr True)"
  by (cases pr) auto

lemma toTSEntity_shaped: "(\<exists>q. toTSEntity e = Inr q) = entityShaped e"
  by (induction e rule: toTSEntity.induct)
     (auto simp: entityShaped_computed split: sum.splits)

lemma toTSEntity_error: "toTSEntity e = Inl x \<Longrightarrow> \<exists>m. x = Error m"
  by (induction e arbitrary: x rule: toTSEntity.induct) (auto split: sum.splits)

text \<open>
  C10: the conversion succeeds exactly on the expressions built from identifiers and
  non-computed member accesses with identifier properties. On any other expression it
  throws a plain \<^verbatim>\<open>Error\<close>, which the catch clause of the visitor throws again instead
  of turning it into a diagnostic comment.
\<close>

theorem C10_toTSEntity:
  "(\<exists>q. toTSEntity e = Inr q) = entityShaped e
   \<and> (entityShaped e \<or> (\<exists>m. toTSEntity e = Inl (Error m)
                              \<and> catchClause cp s (Error m) = Inl (Error m)))"
proof -
  have "entityShaped e \<or> (\<exists>m. toTSEntity e = Inl (Error m))"
  proof (cases "toTSEntity e")
    case (Inl x)
    then show ?thesis using toTSEntity_error by blast
  next
    case (Inr q)
    then show ?thesis using toTSEntity_shaped by blast
  qed
  then show ?thesis
    by (auto simp: toTSEntity_shaped catchClause_def)
qed

section \<open>The rewriter throws no analysis diagnostic\<close>












section \<open>The import resolver\<close>

lemma importsGrow_refl: "importsGrow s s"
  by (simp add: importsGrow_def)

lemma importsGrow_trans: "importsGrow s s1 \<Longrightarrow> importsGrow s1 s2 \<Longrightarrow> importsGrow s s2"
  unfolding importsGrow_def by (metis append.assoc)

lemma getReactImport_grows: "getReactImport name babel ref s = Inr (e, s1) \<Longrightarrow> importsGrow s s1"
  by (auto simp: getReactImport_def importsGrow_def Let_def
           split: LibRef.splits LibRefKind.splits option.splits if_splits)

lemma find_append_case:
  "find P (xs @ ys) = (case find P xs of None \<Rightarrow> find P ys | Some x \<Rightarrow> Some x)"
  by (induction xs) auto

lemma refersTo_grows: "importsGrow s s1 \<Longrightarrow> refersTo s ref name e \<Longrightarrow> refersTo s1 ref name e"
proof -
  assume g: "importsGrow s s1" and r: "refersTo s ref name e"
  show ?thesis
  proof (cases ref)
    case (Global g)
    with r show ?thesis by (simp add: refersTo_def)
  next
    case (Import k sp)
    from g obtain ys where ys: "specifiers s1 (parentPath s sp) = specifiers s (parentPath s sp) @ ys"
      unfolding importsGrow_def by blast
    from g have same: "specifierAt s1 = specifierAt s" "parentPath s1 = parentPath s"
      unfolding importsGrow_def by simp_all
    show ?thesis
      using r Import ys same
      by (cases k) (auto simp: refersTo_def find_append_case split: option.splits)
  qed
qed

lemma hookCallee_grows:
  "importsGrow s s1 \<Longrightarrow> hookCallee s0 s ref name e \<Longrightarrow> hookCallee s0 s1 ref name e"
  unfolding hookCallee_def using refersTo_grows by blast

text \<open>The resolver returns a reference to the name it was asked for, unless the name
  collided when the preamble was started.\<close>

lemma getReactImport_refersTo:
  assumes g: "importsGrow s0 s"
      and r: "getReactImport name babel ref s = Inr (e, s1)"
  shows "hookCallee s0 s1 ref name e"
proof (cases ref)
  case (Global g)
  with r show ?thesis by (auto simp: getReactImport_def hookCallee_def refersTo_def)
next
  case (Import k sp)
  show ?thesis
  proof (cases k)
    case Ns
    with r Import show ?thesis by (auto simp: getReactImport_def hookCallee_def refersTo_def)
  next
    case Named
    let ?d = "parentPath s sp"
    from g obtain ys where ys: "specifiers s ?d = specifiers s0 ?d @ ys"
      unfolding importsGrow_def by blast
    from g have same: "parentPath s = parentPath s0" "bindingsAt s = bindingsAt s0"
      unfolding importsGrow_def by simp_all
    show ?thesis
    proof (cases "find (importsName name) (specifiers s ?d)")
      case (Some spec)
      with r Import Named have "e = Identifier (local spec) None" "s1 = s"
        by (auto simp: getReactImport_def Let_def)
      with Some Import Named show ?thesis by (simp add: hookCallee_def refersTo_def)
    next
      case None
      then have n0: "find (importsName name) (specifiers s0 ?d) = None"
        unfolding ys by (simp add: find_append_case split: option.splits)
      show ?thesis
      proof (cases "name \<in> set (bindingsAt s ?d)")
        case True
        then have "collides s0 ref name"
          using n0 Import Named same by (simp add: collides_def)
        then show ?thesis by (simp add: hookCallee_def)
      next
        case False
        with r Import Named None have
          e: "e = Identifier name None" and
          s1: "s1 = s\<lparr>specifiers := (specifiers s)
                        (?d := specifiers s ?d @ [ImportSpecifier name (ImportedIdentifier name)])\<rparr>"
          by (auto simp: getReactImport_def Let_def split: if_splits)
        have "find (importsName name) (specifiers s1 (parentPath s1 sp))
                = Some (ImportSpecifier name (ImportedIdentifier name))"
          unfolding s1 using None by (simp add: find_append_case)
        then show ?thesis
          using e Import Named by (simp add: hookCallee_def refersTo_def)
      qed
    qed
  qed
qed


section \<open>The preamble\<close>

lemma pushEach_grows:
  assumes f: "\<And>x s d s1. f x s = Inr (d, s1) \<Longrightarrow> importsGrow s s1"
  shows "pushEach f xs s = Inr (ds, s') \<Longrightarrow> importsGrow s s'"
proof (induction xs arbitrary: s ds)
  case Nil
  then show ?case by (simp add: importsGrow_refl)
next
  case (Cons x xs)
  then show ?case
    by (auto simp: bindE_def split: sum.splits prod.splits
             dest: f intro: importsGrow_trans)
qed

text \<open>Each statement pushed satisfies, in the final tree, a property that holds of it
  in the tree in which it was built and is kept by import insertions.\<close>

lemma pushEach_all2:
  assumes grows: "\<And>x s d s1. f x s = Inr (d, s1) \<Longrightarrow> importsGrow s s1"
      and f: "\<And>x s d s1. importsGrow s0 s \<Longrightarrow> f x s = Inr (d, s1) \<Longrightarrow> P s1 x d"
      and mono: "\<And>x d s1 s2. importsGrow s1 s2 \<Longrightarrow> P s1 x d \<Longrightarrow> P s2 x d"
  shows "importsGrow s0 s \<Longrightarrow> pushEach f xs s = Inr (ds, s') \<Longrightarrow> list_all2 (P s') xs ds"
proof (induction xs arbitrary: s ds)
  case Nil
  then show ?case by simp
next
  case (Cons x xs)
  from Cons.prems(2) obtain d s1 ds1 where
    step: "f x s = Inr (d, s1)" and rest: "pushEach f xs s1 = Inr (ds1, s')" and ds: "ds = d # ds1"
    by (auto simp: bindE_def split: sum.splits prod.splits)
  have inv: "importsGrow s0 s1"
    using Cons.prems(1) grows [OF step] by (rule importsGrow_trans)
  have g: "importsGrow s1 s'"
    using rest grows pushEach_grows [of f xs s1 ds1 s'] by blast
  have "P s' x d"
    using f [OF Cons.prems(1) step] mono [OF g] by blast
  moreover have "list_all2 (P s') xs ds1"
    using Cons.IH [OF inv rest] .
  ultimately show ?case by (simp add: ds)
qed

lemma stateTypeNode_grows: "importsGrow s s1 \<Longrightarrow> stateTypeNode s1 ta = stateTypeNode s ta"
  by (cases ta) (simp_all add: stateTypeNode_def importsGrow_def)

lemma stateHookDeclaration_mono:
  "(\<And>e. ok e \<Longrightarrow> ok' e) \<Longrightarrow> stateHookDeclaration ok s ts nf d \<Longrightarrow> stateHookDeclaration ok' s ts nf d"
  unfolding stateHookDeclaration_def
  by (auto split: stmt.splits list.splits declarator.splits expr.splits)

lemma refHookDeclaration_mono:
  "(\<And>e. ok e \<Longrightarrow> ok' e) \<Longrightarrow> refHookDeclaration ok s ts ln ta seed d
     \<Longrightarrow> refHookDeclaration ok' s ts ln ta seed d"
  unfolding refHookDeclaration_def
  by (auto split: stmt.splits list.splits declarator.splits expr.splits)


lemma stateHookDeclaration_grows:
  assumes g: "importsGrow s s1"
      and h: "stateHookDeclaration (hookCallee s0 s ref name) s ts nf d"
  shows "stateHookDeclaration (hookCallee s0 s1 ref name) s1 ts nf d"
proof -
  have e: "exprAt s1 = exprAt s" using g by (simp add: importsGrow_def)
  have t: "\<And>ta. stateTypeNode s1 ta = stateTypeNode s ta" using g by (rule stateTypeNode_grows)
  have "stateHookDeclaration (hookCallee s0 s1 ref name) s ts nf d"
    using h by (rule stateHookDeclaration_mono [rotated]) (rule hookCallee_grows [OF g])
  then show ?thesis
    unfolding stateHookDeclaration_def e t .
qed

lemma stateDeclaration_grows:
  "stateDeclaration ts babel ref nf s = Inr (d, s1) \<Longrightarrow> importsGrow s s1"
  by (cases nf)
     (auto simp: stateDeclaration_def bindE_def Let_def
           split: sum.splits prod.splits dest: getReactImport_grows)

lemma stateDeclaration_hook:
  "importsGrow s0 s \<Longrightarrow> stateDeclaration ts babel ref nf s = Inr (d, s1) \<Longrightarrow>
     stateHookDeclaration (hookCallee s0 s1 ref ''useState'') s1 ts nf d"
  by (cases nf)
     (auto simp: stateDeclaration_def bindE_def Let_def stateHookDeclaration_def stateInitArgs_def
           split: sum.splits prod.splits option.splits
           dest: getReactImport_refersTo)

lemma statePreamble_hooks:
  assumes "importsGrow s0 s"
      and "pushEach (stateDeclaration ts babel ref) xs s = Inr (ds, s')"
  shows "list_all2 (stateHookDeclaration (hookCallee s0 s' ref ''useState'') s' ts) xs ds"
  by (rule pushEach_all2
             [where P = "\<lambda>t. stateHookDeclaration (hookCallee s0 t ref ''useState'') t ts",
              OF _ _ _ assms])
     (auto dest: stateDeclaration_hook stateDeclaration_grows intro: stateHookDeclaration_grows)

lemma refHookDeclaration_grows:
  assumes g: "importsGrow s s1"
      and h: "refHookDeclaration (hookCallee s0 s ref name) s ts ln ta seed d"
  shows "refHookDeclaration (hookCallee s0 s1 ref name) s1 ts ln ta seed d"
proof -
  have t: "typeAt s1 = typeAt s" using g by (simp add: importsGrow_def)
  have "refHookDeclaration (hookCallee s0 s1 ref name) s ts ln ta seed d"
    using h by (rule refHookDeclaration_mono [rotated]) (rule hookCallee_grows [OF g])
  then show ?thesis
    unfolding refHookDeclaration_def t .
qed

lemma fieldHookDeclaration_grows:
  assumes g: "importsGrow s s1"
      and h: "fieldHookDeclaration (hookCallee s0 s ref name) s ts nf d"
  shows "fieldHookDeclaration (hookCallee s0 s1 ref name) s1 ts nf d"
proof -
  obtain n f where nf: "nf = (n, f)" by (cases nf)
  have e: "exprAt s1 = exprAt s" using g by (simp add: importsGrow_def)
  show ?thesis
    using h refHookDeclaration_grows [OF g] unfolding nf
    by (cases f) (simp_all add: e)
qed

lemma fieldDeclaration_grows:
  "fieldDeclaration ts babel ref nf s = Inr (d, s1) \<Longrightarrow> importsGrow s s1"
  by (induction ts babel ref nf s rule: fieldDeclaration.induct)
     (auto simp: importsGrow_refl bindE_def Let_def
           split: sum.splits prod.splits if_splits dest: getReactImport_grows)

lemma fieldDeclaration_hook:
  "importsGrow s0 s \<Longrightarrow> fieldDeclaration ts babel ref nf s = Inr (d, s1) \<Longrightarrow>
     fieldHookDeclaration (hookCallee s0 s1 ref ''useRef'') s1 ts nf d"
proof (induction ts babel ref nf s rule: fieldDeclaration.induct)
  case (1 ts babel ref n ln p ta ss s)
  then show ?case
    by (auto simp: functionDeclarationFrom_def assignReturnType_def nameOr_def)
next
  case (2 ts babel ref n ln p ta ss s)
  then show ?case
    by (auto simp: functionDeclarationFrom_def assignReturnType_def nameOr_def
                   Let_def split: if_splits)
next
  case (3 ts babel ref n ln ta ss s)
  then show ?case
    by (auto simp: bindE_def refDeclaration_def refHookDeclaration_def
             split: sum.splits prod.splits option.splits
             dest: getReactImport_refersTo)
next
  case (4 ts babel ref n ln i ta ss s)
  then show ?case
    by (auto simp: bindE_def refDeclaration_def refHookDeclaration_def
             split: sum.splits prod.splits option.splits
             dest: getReactImport_refersTo)
qed

lemma fieldPreamble_hooks:
  assumes "importsGrow s0 s"
      and "pushEach (fieldDeclaration ts babel ref) xs s = Inr (ds, s')"
  shows "list_all2 (fieldHookDeclaration (hookCallee s0 s' ref ''useRef'') s' ts) xs ds"
  by (rule pushEach_all2
             [where P = "\<lambda>t. fieldHookDeclaration (hookCallee s0 t ref ''useRef'') t ts",
              OF _ _ _ assms])
     (auto dest: fieldDeclaration_hook fieldDeclaration_grows intro: fieldHookDeclaration_grows)

lemma statePreamble_grows:
  "pushEach (stateDeclaration ts babel ref) xs s = Inr (ds, s') \<Longrightarrow> importsGrow s s'"
  by (rule pushEach_grows [where f = "stateDeclaration ts babel ref"])
     (auto dest: stateDeclaration_grows)

lemma fieldPreamble_grows:
  "pushEach (fieldDeclaration ts babel ref) xs s = Inr (ds, s') \<Longrightarrow> importsGrow s s'"
  by (rule pushEach_grows [where f = "fieldDeclaration ts babel ref"])
     (auto dest: fieldDeclaration_grows)


section \<open>The site rewrites\<close>

text \<open>A loop of replacements: every element either does nothing or replaces the node
  at its one target by a value computed from the tree.\<close>

lemma replaceWith_apply: "exprAt (replaceWith p e s) q = (if q = p then e else exprAt s q)"
  by (simp add: replaceWith_def)

lemma writes_frame:
  assumes step: "\<And>x s. x \<in> set xs \<Longrightarrow>
             (tgt x = [] \<and> step x s = s) \<or> (\<exists>p. tgt x = [p] \<and> step x s = replaceWith p (valOf x s) s)"
      and out: "q \<notin> set (concat (map tgt xs))"
  shows "exprAt (fold step xs s) q = exprAt s q"
  using step out
proof (induction xs arbitrary: s)
  case Nil
  then show ?case by simp
next
  case (Cons y ys)
  have a: "exprAt (fold step ys (step y s)) q = exprAt (step y s) q"
    using Cons.IH [of "step y s"] Cons.prems by auto
  have b: "exprAt (step y s) q = exprAt s q"
    using Cons.prems(1) [of y s] Cons.prems(2) by (auto simp: replaceWith_apply)
  show ?case using a b by simp
qed

lemma writes_only:
  assumes step: "\<And>x s. x \<in> set xs \<Longrightarrow>
             (tgt x = [] \<and> step x s = s) \<or> (\<exists>p. tgt x = [p] \<and> step x s = replaceWith p (valOf x s) s)"
  shows "fold step xs s = s\<lparr>exprAt := exprAt (fold step xs s)\<rparr>"
  using step
proof (induction xs arbitrary: s)
  case Nil
  then show ?case by simp
next
  case (Cons y ys)
  have a: "fold step ys (step y s) = (step y s)\<lparr>exprAt := exprAt (fold step ys (step y s))\<rparr>"
    using Cons.IH [of "step y s"] Cons.prems by auto
  have b: "step y s = s\<lparr>exprAt := exprAt (step y s)\<rparr>"
    using Cons.prems [of y s] by (auto simp: replaceWith_def)
  have "fold step ys (step y s) = s\<lparr>exprAt := exprAt (fold step ys (step y s))\<rparr>"
    by (subst a, subst b) simp
  then show ?case by simp
qed

lemma writes_hit:
  assumes step: "\<And>x s. x \<in> set xs \<Longrightarrow>
             (tgt x = [] \<and> step x s = s) \<or> (\<exists>p. tgt x = [p] \<and> step x s = replaceWith p (valOf x s) s)"
      and dist: "distinct (concat (map tgt xs))"
      and sub: "set (concat (map tgt xs)) \<subseteq> T"
      and mem: "x \<in> set xs"
      and tx: "tgt x = [p]"
      and stable: "\<And>s1 s2. (\<forall>q. q \<notin> T \<longrightarrow> exprAt s1 q = exprAt s2 q) \<Longrightarrow> valOf x s1 = valOf x s2"
  shows "exprAt (fold step xs s) p = valOf x s"
  using step dist sub mem
proof (induction xs arbitrary: s)
  case Nil
  then show ?case by simp
next
  case (Cons y ys)
  have stepy: "(tgt y = [] \<and> step y s = s) \<or> (\<exists>r. tgt y = [r] \<and> step y s = replaceWith r (valOf y s) s)"
    using Cons.prems(1) [of y s] by simp
  have steps: "\<And>z s. z \<in> set ys \<Longrightarrow>
             (tgt z = [] \<and> step z s = s) \<or> (\<exists>p. tgt z = [p] \<and> step z s = replaceWith p (valOf z s) s)"
    using Cons.prems(1) by simp
  show ?case
  proof (cases "x \<in> set ys")
    case True
    have d: "distinct (concat (map tgt ys))" using Cons.prems(2) by simp
    have s: "set (concat (map tgt ys)) \<subseteq> T" using Cons.prems(3) by simp
    have ih: "exprAt (fold step ys (step y s)) p = valOf x (step y s)"
      using Cons.IH [OF steps d s True] by simp
    have "\<forall>q. q \<notin> T \<longrightarrow> exprAt (step y s) q = exprAt s q"
      using stepy Cons.prems(3) by (auto simp: replaceWith_apply)
    then have "valOf x (step y s) = valOf x s" by (rule stable)
    with ih show ?thesis by simp
  next
    case False
    then have xy: "x = y" using Cons.prems(4) by simp
    have notin: "p \<notin> set (concat (map tgt ys))"
      using Cons.prems(2) tx xy by auto
    have "exprAt (fold step ys (step y s)) p = exprAt (step y s) p"
      using writes_frame [of ys tgt step valOf p "step y s"] steps notin by blast
    also have "\<dots> = valOf x s"
      using stepy tx xy by (auto simp: replaceWith_apply)
    finally show ?thesis by simp
  qed
qed

text \<open>A loop inside a loop is one loop over the pairs.\<close>

lemma fold_nested:
  "fold (\<lambda>(n, f). fold (g f) (h f)) fs s
     = fold (\<lambda>(f, x). g f x) (concat (map (\<lambda>(n, f). map (Pair f) (h f)) fs)) s"
proof (induction fs arbitrary: s)
  case Nil
  then show ?case by simp
next
  case (Cons a fs)
  obtain n f where a: "a = (n, f)" by (cases a)
  have "fold (\<lambda>(f, x). g f x) (map (Pair f) (h f)) s = fold (g f) (h f) s"
    by (simp add: fold_map comp_def)
  then show ?case using Cons.IH by (simp add: a)
qed

lemma concat_nested:
  "concat (map (\<lambda>(f, x). t x) (concat (map (\<lambda>(n, f). map (Pair f) (h f)) fs)))
     = concat (map (\<lambda>(n, f). concat (map t (h f))) fs)"
  by (induction fs) (auto simp: comp_def)

lemma in_nested:
  "(n, f) \<in> set fs \<Longrightarrow> x \<in> set (h f) \<Longrightarrow>
     (f, x) \<in> set (concat (map (\<lambda>(n, f). map (Pair f) (h f)) fs))"
  by force


lemma stateSite_step:
  "((\<lambda>(f, x). stateSiteTarget x) fx = [] \<and> (\<lambda>(f, x). rewriteStateSite f x) fx s = s)
   \<or> (\<exists>p. (\<lambda>(f, x). stateSiteTarget x) fx = [p]
          \<and> (\<lambda>(f, x). rewriteStateSite f x) fx s
              = replaceWith p ((\<lambda>(f, x). stateReplacement f x) fx s) s)"
proof -
  obtain f x where fx: "fx = (f, x)" by (cases fx)
  show ?thesis unfolding fx by (cases x) auto
qed

lemma rewriteStateSites_flat:
  "rewriteStateSites fs s
     = fold (\<lambda>(f, x). rewriteStateSite f x)
            (concat (map (\<lambda>(n, f). map (Pair f) (stateSites f)) fs)) s"
  unfolding rewriteStateSites_def by (rule fold_nested)

lemma stateTargets_flat:
  "concat (map (\<lambda>(f, x). stateSiteTarget x)
               (concat (map (\<lambda>(n, f). map (Pair f) (stateSites f)) fs)))
     = stateTargets fs"
  unfolding stateTargets_def by (rule concat_nested)

lemma rewriteStateSites_frame:
  "q \<notin> set (stateTargets fs) \<Longrightarrow> exprAt (rewriteStateSites fs s) q = exprAt s q"
  unfolding rewriteStateSites_flat
  by (rule writes_frame [where tgt = "\<lambda>(f, x). stateSiteTarget x"
                           and valOf = "\<lambda>(f, x). stateReplacement f x"])
     (rule stateSite_step, simp add: stateTargets_flat)

lemma rewriteStateSites_only:
  "rewriteStateSites fs s = s\<lparr>exprAt := exprAt (rewriteStateSites fs s)\<rparr>"
  unfolding rewriteStateSites_flat
  by (rule writes_only [where tgt = "\<lambda>(f, x). stateSiteTarget x"
                          and valOf = "\<lambda>(f, x). stateReplacement f x"])
     (rule stateSite_step)

lemma rewriteStateSites_hit:
  assumes dist: "distinct (stateTargets fs)"
      and mem: "(n, f) \<in> set fs" "x \<in> set (stateSites f)"
      and tx: "stateSiteTarget x = [p]"
      and stable: "\<And>vp. x = SetStateSite p vp \<Longrightarrow> vp \<notin> set (stateTargets fs)"
  shows "exprAt (rewriteStateSites fs s) p = stateReplacement f x s"
proof -
  let ?xs = "concat (map (\<lambda>(n, f). map (Pair f) (stateSites f)) fs)"
  have m: "(f, x) \<in> set ?xs" using mem by (rule in_nested)
  have st: "\<And>s1 s2. (\<forall>q. q \<notin> set (stateTargets fs) \<longrightarrow> exprAt s1 q = exprAt s2 q)
              \<Longrightarrow> (\<lambda>(f, x). stateReplacement f x) (f, x) s1
                  = (\<lambda>(f, x). stateReplacement f x) (f, x) s2"
    using stable tx by (cases x) auto
  have "exprAt (fold (\<lambda>(f, x). rewriteStateSite f x) ?xs s) p
          = (\<lambda>(f, x). stateReplacement f x) (f, x) s"
  proof (rule writes_hit [where tgt = "\<lambda>(f, x). stateSiteTarget x"
                            and T = "set (stateTargets fs)"])
    show "distinct (concat (map (\<lambda>(f, x). stateSiteTarget x) ?xs))"
      using dist by (simp add: stateTargets_flat)
    show "set (concat (map (\<lambda>(f, x). stateSiteTarget x) ?xs)) \<subseteq> set (stateTargets fs)"
      by (simp add: stateTargets_flat)
    show "(f, x) \<in> set ?xs" by (rule m)
    show "(\<lambda>(f, x). stateSiteTarget x) (f, x) = [p]" using tx by simp
  qed (rule stateSite_step, rule st)
  then show ?thesis by (simp add: rewriteStateSites_flat)
qed

lemma fieldSite_step:
  "((\<lambda>(f, x). fieldSiteTarget x) fx = [] \<and> (\<lambda>(f, x). rewriteFieldSite f x) fx s = s)
   \<or> (\<exists>p. (\<lambda>(f, x). fieldSiteTarget x) fx = [p]
          \<and> (\<lambda>(f, x). rewriteFieldSite f x) fx s
              = replaceWith p ((\<lambda>(f, x) s. fieldReplacement f) fx s) s)"
proof -
  obtain f x where fx: "fx = (f, x)" by (cases fx)
  show ?thesis unfolding fx by (cases x) auto
qed

lemma rewriteFieldSites_flat:
  "rewriteFieldSites fs s
     = fold (\<lambda>(f, x). rewriteFieldSite f x)
            (concat (map (\<lambda>(n, f). map (Pair f) (fieldSites f)) fs)) s"
  unfolding rewriteFieldSites_def by (rule fold_nested)

lemma fieldTargets_flat:
  "concat (map (\<lambda>(f, x). fieldSiteTarget x)
               (concat (map (\<lambda>(n, f). map (Pair f) (fieldSites f)) fs)))
     = fieldTargets fs"
  unfolding fieldTargets_def by (rule concat_nested)

lemma rewriteFieldSites_frame:
  "q \<notin> set (fieldTargets fs) \<Longrightarrow> exprAt (rewriteFieldSites fs s) q = exprAt s q"
  unfolding rewriteFieldSites_flat
  by (rule writes_frame [where tgt = "\<lambda>(f, x). fieldSiteTarget x"
                           and valOf = "\<lambda>(f, x) s. fieldReplacement f"])
     (rule fieldSite_step, simp add: fieldTargets_flat)

lemma rewriteFieldSites_only:
  "rewriteFieldSites fs s = s\<lparr>exprAt := exprAt (rewriteFieldSites fs s)\<rparr>"
  unfolding rewriteFieldSites_flat
  by (rule writes_only [where tgt = "\<lambda>(f, x). fieldSiteTarget x"
                          and valOf = "\<lambda>(f, x) s. fieldReplacement f"])
     (rule fieldSite_step)



lemma propSite_step:
  "((\<lambda>(prop, p). [p]) pp = []
      \<and> (\<lambda>(prop, p). replaceWith p (Identifier (newAliasName prop) None)) pp s = s)
   \<or> (\<exists>q. (\<lambda>(prop, p). [p]) pp = [q]
          \<and> (\<lambda>(prop, p). replaceWith p (Identifier (newAliasName prop) None)) pp s
              = replaceWith q ((\<lambda>(prop, p) s. Identifier (newAliasName prop) None) pp s) s)"
  by (cases pp) auto

lemma rewriteProps_flat:
  "fold (\<lambda>(n, prop). rewriteProp prop) ps s
     = fold (\<lambda>(prop, p). replaceWith p (Identifier (newAliasName prop) None))
            (concat (map (\<lambda>(n, prop). map (Pair prop) (propSites prop)) ps)) s"
  unfolding rewriteProp_def by (rule fold_nested)

lemma propTargets_flat:
  "concat (map (\<lambda>(prop, p). [p])
               (concat (map (\<lambda>(n, prop). map (Pair prop) (propSites prop)) ps)))
     = concat (map (\<lambda>(n, prop). propSites prop) ps)"
proof -
  have "concat (map (\<lambda>(prop, p). [p])
               (concat (map (\<lambda>(n, prop). map (Pair prop) (propSites prop)) ps)))
        = concat (map (\<lambda>(n, prop). concat (map (\<lambda>p. [p]) (propSites prop))) ps)"
    by (rule concat_nested)
  then show ?thesis by simp
qed

lemma rewriteProps_frame:
  "q \<notin> set (concat (map (\<lambda>(n, prop). propSites prop) ps)) \<Longrightarrow>
     exprAt (fold (\<lambda>(n, prop). rewriteProp prop) ps s) q = exprAt s q"
  unfolding rewriteProps_flat
  by (rule writes_frame [where tgt = "\<lambda>(prop, p). [p]"
                           and valOf = "\<lambda>(prop, p) s. Identifier (newAliasName prop) None"])
     (rule propSite_step, simp add: propTargets_flat)

lemma rewriteProps_only:
  "fold (\<lambda>(n, prop). rewriteProp prop) ps s
     = s\<lparr>exprAt := exprAt (fold (\<lambda>(n, prop). rewriteProp prop) ps s)\<rparr>"
  unfolding rewriteProps_flat
  by (rule writes_only [where tgt = "\<lambda>(prop, p). [p]"
                          and valOf = "\<lambda>(prop, p) s. Identifier (newAliasName prop) None"])
     (rule propSite_step)

lemma rewriteProps_hit:
  assumes dist: "distinct (concat (map (\<lambda>(n, prop). propSites prop) ps))"
      and mem: "(n, prop) \<in> set ps" "p \<in> set (propSites prop)"
  shows "exprAt (fold (\<lambda>(n, prop). rewriteProp prop) ps s) p = Identifier (newAliasName prop) None"
proof -
  let ?xs = "concat (map (\<lambda>(n, prop). map (Pair prop) (propSites prop)) ps)"
  let ?T = "set (concat (map (\<lambda>(n, prop). propSites prop) ps))"
  have m: "(prop, p) \<in> set ?xs" using mem by (rule in_nested)
  have "exprAt (fold (\<lambda>(prop, p). replaceWith p (Identifier (newAliasName prop) None)) ?xs s) p
          = (\<lambda>(prop, p) s. Identifier (newAliasName prop) None) (prop, p) s"
  proof (rule writes_hit [where tgt = "\<lambda>(prop, p). [p]" and T = ?T])
    show "distinct (concat (map (\<lambda>(prop, p). [p]) ?xs))"
      using dist by (simp add: propTargets_flat)
    show "set (concat (map (\<lambda>(prop, p). [p]) ?xs)) \<subseteq> ?T"
      by (simp add: propTargets_flat)
    show "(prop, p) \<in> set ?xs" by (rule m)
    show "(\<lambda>(prop, p). [p]) (prop, p) = [p]" by simp
  qed (rule propSite_step, simp)
  then show ?thesis by (simp add: rewriteProps_flat)
qed

lemma rewritePropsObject_result:
  "rewritePropsObject p s = Inr s1 \<Longrightarrow>
     \<exists>ob pr c. exprAt s p = MemberExpression ob pr c \<and> s1 = replaceWith p pr s"
  by (auto simp: rewritePropsObject_def split: expr.splits)

lemma propsObject_frame:
  "foldE rewritePropsObject ps s = Inr s1 \<Longrightarrow> q \<notin> set ps \<Longrightarrow> exprAt s1 q = exprAt s q"
proof (induction ps arbitrary: s)
  case Nil
  then show ?case by simp
next
  case (Cons p ps)
  from Cons.prems(1) obtain s0 where
    a: "rewritePropsObject p s = Inr s0" and b: "foldE rewritePropsObject ps s0 = Inr s1"
    by (auto simp: bindE_def split: sum.splits)
  have "exprAt s1 q = exprAt s0 q" using Cons.IH [OF b] Cons.prems(2) by simp
  moreover have "exprAt s0 q = exprAt s q"
    using rewritePropsObject_result [OF a] Cons.prems(2) by (auto simp: replaceWith_apply)
  ultimately show ?case by simp
qed

lemma propsObject_only:
  "foldE rewritePropsObject ps s = Inr s1 \<Longrightarrow> s1 = s\<lparr>exprAt := exprAt s1\<rparr>"
proof (induction ps arbitrary: s)
  case Nil
  then show ?case by simp
next
  case (Cons p ps)
  from Cons.prems(1) obtain s0 where
    a: "rewritePropsObject p s = Inr s0" and b: "foldE rewritePropsObject ps s0 = Inr s1"
    by (auto simp: bindE_def split: sum.splits)
  have c: "s1 = s0\<lparr>exprAt := exprAt s1\<rparr>" using Cons.IH [OF b] .
  have d: "s0 = s\<lparr>exprAt := exprAt s0\<rparr>"
    using rewritePropsObject_result [OF a] by (auto simp: replaceWith_def)
  show ?case by (subst c, subst d) simp
qed

lemma propsObject_hit:
  "foldE rewritePropsObject ps s = Inr s1 \<Longrightarrow> distinct ps \<Longrightarrow> p \<in> set ps \<Longrightarrow>
     \<exists>ob c. exprAt s p = MemberExpression ob (exprAt s1 p) c"
proof (induction ps arbitrary: s)
  case Nil
  then show ?case by simp
next
  case (Cons q ps)
  from Cons.prems(1) obtain s0 where
    a: "rewritePropsObject q s = Inr s0" and b: "foldE rewritePropsObject ps s0 = Inr s1"
    by (auto simp: bindE_def split: sum.splits)
  from rewritePropsObject_result [OF a] obtain ob pr c where
    m: "exprAt s q = MemberExpression ob pr c" and s0: "s0 = replaceWith q pr s"
    by blast
  show ?case
  proof (cases "p = q")
    case True
    then have "p \<notin> set ps" using Cons.prems(2) by simp
    then have "exprAt s1 p = exprAt s0 p" using propsObject_frame [OF b] by simp
    then show ?thesis using m s0 True by (simp add: replaceWith_apply)
  next
    case False
    then have "p \<in> set ps" using Cons.prems(3) by simp
    then obtain ob' c' where "exprAt s0 p = MemberExpression ob' (exprAt s1 p) c'"
      using Cons.IH [OF b] Cons.prems(2) by auto
    then show ?thesis using s0 False by (simp add: replaceWith_apply)
  qed
qed

lemma rewritePropSites_only:
  "rewritePropSites pa s = Inr s1 \<Longrightarrow> s1 = s\<lparr>exprAt := exprAt s1\<rparr>"
  using rewriteProps_only [of "props pa" s] propsObject_only [of "sites pa" s s1]
  by (auto simp: rewritePropSites_def split: if_splits)

lemma rewritePropSites_frame:
  "rewritePropSites pa s = Inr s1 \<Longrightarrow> q \<notin> set (propTargets pa) \<Longrightarrow> exprAt s1 q = exprAt s q"
  using rewriteProps_frame [of q "props pa" s] propsObject_frame [of "sites pa" s s1 q]
  by (auto simp: rewritePropSites_def propTargets_def split: if_splits)

section \<open>The typing of props with a default\<close>

lemma widenTypeAnnotation_idem:
  "widenTypeAnnotation (widenTypeAnnotation a) = widenTypeAnnotation a"
  by (cases a) (auto simp: widenTypeAnnotation_def list_ex_iff)

lemma makeOptional_idem: "makeOptional (makeOptional m) = makeOptional m"
  by (cases m) (auto simp: makeOptional_def widenTypeAnnotation_idem option.map_comp comp_def)

lemma widenPropType_only: "widenPropType prop s = s\<lparr>memberAt := memberAt (widenPropType prop s)\<rparr>"
  by (auto simp: widenPropType_def split: option.splits)

lemma widenPropTypes_only:
  "widenPropTypes ps s = s\<lparr>memberAt := memberAt (widenPropTypes ps s)\<rparr>"
proof (induction ps arbitrary: s)
  case Nil
  then show ?case by (simp add: widenPropTypes_def)
next
  case (Cons a ps)
  obtain n pr where a: "a = (n, pr)" by (cases a)
  have c: "widenPropTypes ps (widenPropType pr s)
             = (widenPropType pr s)\<lparr>memberAt := memberAt (widenPropTypes ps (widenPropType pr s))\<rparr>"
    using Cons.IH .
  have "widenPropTypes ps (widenPropType pr s)
          = s\<lparr>memberAt := memberAt (widenPropTypes ps (widenPropType pr s))\<rparr>"
    by (subst c, subst widenPropType_only) simp
  then show ?case by (simp add: widenPropTypes_def a)
qed

lemma widenPropTypes_member:
  "memberAt (widenPropTypes ps s) tp
     = (if \<exists>(n, prop) \<in> set ps. defaultValue prop \<noteq> None \<and> typing prop = Some tp
        then makeOptional (memberAt s tp) else memberAt s tp)
   \<and> (memberAt s tp = makeOptional (memberAt s tp) \<longrightarrow>
        memberAt (widenPropTypes ps s) tp = memberAt s tp)"
proof (induction ps arbitrary: s)
  case Nil
  then show ?case by (simp add: widenPropTypes_def)
next
  case (Cons a ps)
  obtain n pr where a: "a = (n, pr)" by (cases a)
  let ?s = "widenPropType pr s"
  have unf: "widenPropTypes (a # ps) s = widenPropTypes ps ?s"
    by (simp add: widenPropTypes_def a)
  show ?case
  proof (cases "defaultValue pr \<noteq> None \<and> typing pr = Some tp")
    case True
    then have m: "memberAt ?s tp = makeOptional (memberAt s tp)"
      by (auto simp: widenPropType_def split: option.splits)
    then have fixed: "memberAt ?s tp = makeOptional (memberAt ?s tp)"
      by (simp add: makeOptional_idem)
    have "memberAt (widenPropTypes ps ?s) tp = memberAt ?s tp"
      using Cons.IH [of ?s] fixed by blast
    then show ?thesis using True m unfolding unf by (auto simp: a)
  next
    case False
    then have m: "memberAt ?s tp = memberAt s tp"
      by (auto simp: widenPropType_def split: option.splits)
    show ?thesis using Cons.IH [of ?s] False unfolding unf m by (auto simp: a)
  qed
qed


section \<open>The run of the rewriter\<close>

lemma propsPreamble_exprs: "exprAt s = exprAt s1 \<Longrightarrow> propsPreamble pa s = propsPreamble pa s1"
  by (auto simp: propsPreamble_def propProperty_def split: option.splits)

lemma getReactImport_funcAt: "getReactImport name babel ref s = Inr (e, s1) \<Longrightarrow> funcAt s1 = funcAt s"
  by (auto simp: getReactImport_def Let_def
           split: LibRef.splits LibRefKind.splits option.splits if_splits)

lemma pushEach_funcAt:
  assumes f: "\<And>x s d s1. f x s = Inr (d, s1) \<Longrightarrow> funcAt s1 = funcAt s"
  shows "pushEach f xs s = Inr (ds, s') \<Longrightarrow> funcAt s' = funcAt s"
proof (induction xs arbitrary: s ds)
  case Nil
  then show ?case by simp
next
  case (Cons x xs)
  from Cons.prems obtain d s1 ds1 where
    step: "f x s = Inr (d, s1)" and rest: "pushEach f xs s1 = Inr (ds1, s')"
    by (auto simp: bindE_def split: sum.splits prod.splits)
  show ?case using f [OF step] Cons.IH [OF rest] by simp
qed

lemma statePreamble_funcAt:
  "pushEach (stateDeclaration ts babel ref) xs s = Inr (ds, s') \<Longrightarrow> funcAt s' = funcAt s"
proof (rule pushEach_funcAt [where f = "stateDeclaration ts babel ref"])
  fix x s d s1
  assume "stateDeclaration ts babel ref x s = Inr (d, s1)"
  then show "funcAt s1 = funcAt s"
    by (cases x) (auto simp: stateDeclaration_def bindE_def Let_def
                       split: sum.splits prod.splits dest: getReactImport_funcAt)
qed

lemma fieldPreamble_funcAt:
  "pushEach (fieldDeclaration ts babel ref) xs s = Inr (ds, s') \<Longrightarrow> funcAt s' = funcAt s"
proof (rule pushEach_funcAt [where f = "fieldDeclaration ts babel ref"])
  fix x s d s1
  assume "fieldDeclaration ts babel ref x s = Inr (d, s1)"
  then show "funcAt s1 = funcAt s"
    by (induction ts babel ref x s rule: fieldDeclaration.induct)
       (auto simp: bindE_def Let_def split: sum.splits prod.splits if_splits
             dest: getReactImport_funcAt)
qed

lemma finish_result:
  assumes "finish head body ts babel np pre s = Inr (r, s')"
  shows "\<exists>ss. fbody (funcAt s (renderPath (render body))) = BlockStatement ss
           \<and> funcNode r = Func ArrowFunctionExpression None
                             (if np body then [Identifier ''props'' None] else [])
                             (BlockStatement (pre @ ss)) False False None
           \<and> funcAt s' = (funcAt s)
                 (renderPath (render body) :=
                    setBody (funcAt s (renderPath (render body))) (BlockStatement (pre @ ss)))
           \<and> importsGrow s s'"
proof (cases "fbody (funcAt s (renderPath (render body)))")
  case (ExpressionBody e)
  with assms show ?thesis by (simp add: finish_def)
next
  case (BlockStatement ss)
  let ?rp = "renderPath (render body)"
  let ?s1 = "s\<lparr>funcAt := (funcAt s)(?rp := setBody (funcAt s ?rp) (BlockStatement (pre @ ss)))\<rparr>"
  let ?fn = "Func ArrowFunctionExpression None
               (if np body then [Identifier ''props'' None] else [])
               (BlockStatement (pre @ ss)) False False None"
  have g0: "importsGrow s ?s1" by (simp add: importsGrow_def)
  show ?thesis
  proof (cases ts)
    case False
    with assms BlockStatement have "r = \<lparr>funcNode = ?fn, typeNode = None\<rparr>" and "s' = ?s1"
      by (auto simp: finish_def Let_def)
    then show ?thesis using BlockStatement g0 by simp
  next
    case True
    with assms BlockStatement obtain fc s2 where
      imp: "getReactImport ''FC'' babel (superClassRef head) ?s1 = Inr (fc, s2)" and
      r: "funcNode r = ?fn" and s': "s' = s2"
      by (auto simp: finish_def Let_def bindE_def split: sum.splits prod.splits)
    have "importsGrow ?s1 s2" using imp by (rule getReactImport_grows)
    then have g: "importsGrow s s'" using g0 s' importsGrow_trans by blast
    have "funcAt s2 = funcAt ?s1" using imp by (rule getReactImport_funcAt)
    then show ?thesis using BlockStatement r s' g by simp
  qed
qed

lemma transformClass_run:
  assumes "transformClass head body ts babel np s = Inr (r, s')"
  shows "\<exists>s1 pre2 s5 pre3 s6.
           rewritePropSites (bodyProps body) (prepared babel body s) = Inr s1
         \<and> pushEach (stateDeclaration ts babel (superClassRef head)) (state body)
              (rewriteFieldSites (userDefined body)
                 (rewriteStateSites (state body)
                    (widenPropTypes (props (bodyProps body)) s1))) = Inr (pre2, s5)
         \<and> pushEach (fieldDeclaration ts babel (superClassRef head)) (userDefined body) s5
              = Inr (pre3, s6)
         \<and> finish head body ts babel np
              (propsPreamble (bodyProps body)
                 (rewriteFieldSites (userDefined body)
                    (rewriteStateSites (state body)
                       (widenPropTypes (props (bodyProps body)) s1))) @ pre2 @ pre3) s6
              = Inr (r, s')"
  using assms unfolding transformClass_def bindE_def Let_def
  by (auto split: sum.splits prod.splits)

text \<open>What each phase leaves alone.\<close>

lemma rewriteStateSites_others:
  "memberAt (rewriteStateSites fs s) = memberAt s" "funcAt (rewriteStateSites fs s) = funcAt s"
  by (subst rewriteStateSites_only, simp)+

lemma rewriteFieldSites_others:
  "memberAt (rewriteFieldSites fs s) = memberAt s" "funcAt (rewriteFieldSites fs s) = funcAt s"
  by (subst rewriteFieldSites_only, simp)+

lemma widenPropTypes_others:
  "exprAt (widenPropTypes ps s) = exprAt s" "funcAt (widenPropTypes ps s) = funcAt s"
  by (subst widenPropTypes_only, simp)+

lemma rewritePropSites_others:
  assumes "rewritePropSites pa s = Inr s1"
  shows "memberAt s1 = memberAt s" "funcAt s1 = funcAt s"
  by (subst rewritePropSites_only [OF assms], simp)+

text \<open>The site rewrites and the widening of the types leave the imports and the
  bindings alone.\<close>

lemma hookCallee_base:
  "specifiers s = specifiers t \<Longrightarrow> parentPath s = parentPath t \<Longrightarrow> bindingsAt s = bindingsAt t
     \<Longrightarrow> hookCallee s = hookCallee t"
  by (intro ext) (simp add: hookCallee_def collides_def split: LibRef.splits LibRefKind.splits)

lemma rewrites_imports:
  assumes "rewritePropSites pa s = Inr s1"
  shows "hookCallee (rewriteFieldSites us (rewriteStateSites fs (widenPropTypes ps s1)))
           = hookCallee s"
proof (rule hookCallee_base)
  let ?s2 = "widenPropTypes ps s1"
  let ?s3 = "rewriteStateSites fs ?s2"
  let ?s4 = "rewriteFieldSites us ?s3"
  have a: "specifiers s1 = specifiers s" "parentPath s1 = parentPath s" "bindingsAt s1 = bindingsAt s"
    by (subst rewritePropSites_only [OF assms], simp)+
  have b: "specifiers ?s2 = specifiers s1" "parentPath ?s2 = parentPath s1"
          "bindingsAt ?s2 = bindingsAt s1"
    by (subst widenPropTypes_only, simp)+
  have c: "specifiers ?s3 = specifiers ?s2" "parentPath ?s3 = parentPath ?s2"
          "bindingsAt ?s3 = bindingsAt ?s2"
    by (subst rewriteStateSites_only, simp)+
  have d: "specifiers ?s4 = specifiers ?s3" "parentPath ?s4 = parentPath ?s3"
          "bindingsAt ?s4 = bindingsAt ?s3"
    by (subst rewriteFieldSites_only, simp)+
  show "specifiers ?s4 = specifiers s" using a b c d by simp
  show "parentPath ?s4 = parentPath s" using a b c d by simp
  show "bindingsAt ?s4 = bindingsAt s" using a b c d by simp
qed

text \<open>What the site rewrites leave in the final tree.\<close>

lemma transformClass_sites:
  assumes "transformClass head body ts babel np s = Inr (r, s')"
  shows "\<exists>s1. rewritePropSites (bodyProps body) (prepared babel body s) = Inr s1
            \<and> exprAt s' = exprAt (rewriteFieldSites (userDefined body)
                                     (rewriteStateSites (state body)
                                        (widenPropTypes (props (bodyProps body)) s1)))
            \<and> exprAt (widenPropTypes (props (bodyProps body)) s1) = exprAt s1
            \<and> memberAt s' = memberAt (widenPropTypes (props (bodyProps body)) s1)
            \<and> memberAt s1 = memberAt (prepared babel body s)"
proof -
  from transformClass_run [OF assms] obtain s1 pre2 s5 pre3 s6 where
    a: "rewritePropSites (bodyProps body) (prepared babel body s) = Inr s1" and
    b: "pushEach (stateDeclaration ts babel (superClassRef head)) (state body)
              (rewriteFieldSites (userDefined body)
                 (rewriteStateSites (state body)
                    (widenPropTypes (props (bodyProps body)) s1))) = Inr (pre2, s5)" and
    c: "pushEach (fieldDeclaration ts babel (superClassRef head)) (userDefined body) s5
              = Inr (pre3, s6)" and
    d: "finish head body ts babel np
              (propsPreamble (bodyProps body)
                 (rewriteFieldSites (userDefined body)
                    (rewriteStateSites (state body)
                       (widenPropTypes (props (bodyProps body)) s1))) @ pre2 @ pre3) s6
              = Inr (r, s')"
    by blast
  let ?s2 = "widenPropTypes (props (bodyProps body)) s1"
  let ?s4 = "rewriteFieldSites (userDefined body) (rewriteStateSites (state body) ?s2)"
  have g1: "importsGrow ?s4 s5" using b by (rule statePreamble_grows)
  have g2: "importsGrow s5 s6" using c by (rule fieldPreamble_grows)
  have g3: "importsGrow s6 s'" using finish_result [OF d] by blast
  have e: "exprAt s' = exprAt ?s4" and m: "memberAt s' = memberAt ?s4"
    using g1 g2 g3 by (simp_all add: importsGrow_def)
  have m2: "memberAt ?s4 = memberAt ?s2"
    by (simp add: rewriteFieldSites_others rewriteStateSites_others)
  show ?thesis
    using a e m m2 widenPropTypes_others(1) rewritePropSites_others(1) [OF a] by auto
qed

text \<open>The function the rewriter returns: the preamble in its three parts, in front of
  the statements of the render method.\<close>

lemma transformClass_shape:
  assumes "transformClass head body ts babel np s = Inr (r, s')"
  shows "\<exists>sd fd ss.
           fbody (funcAt (prepared babel body s) (renderPath (render body))) = BlockStatement ss
         \<and> funcNode r = Func ArrowFunctionExpression None
                           (if np body then [Identifier ''props'' None] else [])
                           (BlockStatement (propsPreamble (bodyProps body) s' @ sd @ fd @ ss))
                           False False None
         \<and> fbody (funcAt s' (renderPath (render body)))
             = BlockStatement (propsPreamble (bodyProps body) s' @ sd @ fd @ ss)
         \<and> list_all2 (stateHookDeclaration
                         (hookCallee (prepared babel body s) s' (superClassRef head) ''useState'')
                         s' ts)
                      (state body) sd
         \<and> list_all2 (fieldHookDeclaration
                         (hookCallee (prepared babel body s) s' (superClassRef head) ''useRef'')
                         s' ts)
                      (userDefined body) fd"
proof -
  from transformClass_run [OF assms] obtain s1 pre2 s5 pre3 s6 where
    a: "rewritePropSites (bodyProps body) (prepared babel body s) = Inr s1" and
    b: "pushEach (stateDeclaration ts babel (superClassRef head)) (state body)
              (rewriteFieldSites (userDefined body)
                 (rewriteStateSites (state body)
                    (widenPropTypes (props (bodyProps body)) s1))) = Inr (pre2, s5)" and
    c: "pushEach (fieldDeclaration ts babel (superClassRef head)) (userDefined body) s5
              = Inr (pre3, s6)" and
    d: "finish head body ts babel np
              (propsPreamble (bodyProps body)
                 (rewriteFieldSites (userDefined body)
                    (rewriteStateSites (state body)
                       (widenPropTypes (props (bodyProps body)) s1))) @ pre2 @ pre3) s6
              = Inr (r, s')"
    by blast
  let ?rp = "renderPath (render body)"
  let ?s2 = "widenPropTypes (props (bodyProps body)) s1"
  let ?s4 = "rewriteFieldSites (userDefined body) (rewriteStateSites (state body) ?s2)"
  let ?pre = "propsPreamble (bodyProps body) ?s4 @ pre2 @ pre3"
  have g1: "importsGrow ?s4 s5" using b by (rule statePreamble_grows)
  have g2: "importsGrow s5 s6" using c by (rule fieldPreamble_grows)
  from finish_result [OF d] obtain ss where
    ss: "fbody (funcAt s6 ?rp) = BlockStatement ss" and
    fn: "funcNode r = Func ArrowFunctionExpression None
                        (if np body then [Identifier ''props'' None] else [])
                        (BlockStatement (?pre @ ss)) False False None" and
    fa: "funcAt s' = (funcAt s6)(?rp := setBody (funcAt s6 ?rp) (BlockStatement (?pre @ ss)))" and
    g3: "importsGrow s6 s'"
    by blast
  have e: "exprAt ?s4 = exprAt s'"
    using g1 g2 g3 by (simp add: importsGrow_def)
  have pp: "propsPreamble (bodyProps body) ?s4 = propsPreamble (bodyProps body) s'"
    using e by (rule propsPreamble_exprs)
  have f6: "funcAt s6 = funcAt (prepared babel body s)"
    using statePreamble_funcAt [OF b] fieldPreamble_funcAt [OF c]
          rewritePropSites_others(2) [OF a]
    by (simp add: rewriteFieldSites_others rewriteStateSites_others widenPropTypes_others)
  have base: "hookCallee ?s4 = hookCallee (prepared babel body s)"
    using a by (rule rewrites_imports)
  have sd: "list_all2 (stateHookDeclaration
                         (hookCallee (prepared babel body s) s' (superClassRef head) ''useState'')
                         s' ts)
                      (state body) pre2"
  proof -
    have "list_all2 (stateHookDeclaration (hookCallee ?s4 s5 (superClassRef head) ''useState'') s5 ts)
            (state body) pre2"
      using importsGrow_refl b by (rule statePreamble_hooks)
    moreover have "importsGrow s5 s'" using g2 g3 by (rule importsGrow_trans)
    ultimately show ?thesis
      unfolding base by (auto elim!: list_all2_mono intro: stateHookDeclaration_grows)
  qed
  have fd: "list_all2 (fieldHookDeclaration
                         (hookCallee (prepared babel body s) s' (superClassRef head) ''useRef'')
                         s' ts)
                      (userDefined body) pre3"
  proof -
    have "list_all2 (fieldHookDeclaration (hookCallee ?s4 s6 (superClassRef head) ''useRef'') s6 ts)
            (userDefined body) pre3"
      using g1 c by (rule fieldPreamble_hooks)
    then show ?thesis
      using g3 unfolding base by (auto elim!: list_all2_mono intro: fieldHookDeclaration_grows)
  qed
  have "fbody (funcAt s' ?rp) = BlockStatement (?pre @ ss)"
    unfolding fa by (cases "funcAt s6 ?rp") (simp add: setBody_def)
  then show ?thesis
    using ss fn sd fd unfolding pp f6 by auto
qed

section \<open>The example run\<close>

lemmas example_defs =
  exampleAst_def exampleBabel_def exampleHead_def exampleBody_def thisExpression_def
  exampleResult_def exampleFinal_def examplePreamble_def exampleNeedsProps_def
  propsOnlyBody_def propsOnlyResult_def propsOnlyFinal_def brokenBody_def
  exampleOutput_def propsOnlyOutput_def nestedAst_def nestedBody_def noProps_def
  nestedPreamble_def nestedResult_def nestedFinal_def nestedOutput_def
  shadowedAst_def shadowedFinal_def

lemmas rewriter_defs =
  transformClass_def prepared_def renameLocals_def removeLocals_def renameAliases_def
  rewritePropSites_def rewriteProp_def rewritePropsObject_def widenPropTypes_def widenPropType_def
  makeOptional_def widenTypeAnnotation_def rewriteStateSites_def rewriteFieldSites_def
  propsPreamble_def propsWithAlias_def propProperty_def stateDeclaration_def stateInitArgs_def
  stateTypeNode_def getReactImport_def refDeclaration_def finish_def setBody_def bindE_def
  replaceWith_def arrowFunctionExpressionFrom_def assignReturnType_def
  functionDeclarationFrom_def functionExpressionFrom_def nameOr_def functionName_def blockOf_def

lemma example_run:
  "transformClass exampleHead exampleBody False exampleBabel exampleNeedsProps exampleAst
     = Inr (exampleResult, exampleFinal)"
  by (simp add: example_defs rewriter_defs Let_def)


lemma propsOnly_run:
  "transformClass exampleHead propsOnlyBody False exampleBabel exampleNeedsProps exampleAst
     = Inr (propsOnlyResult, propsOnlyFinal)"
  by (simp add: example_defs rewriter_defs Let_def)


lemma nested_run:
  "transformClass exampleHead nestedBody False exampleBabel noProps nestedAst
     = Inr (nestedResult ''useState'' ''useState'', nestedFinal)"
  by (simp add: example_defs rewriter_defs Let_def)

lemma shadowed_run:
  "transformClass exampleHead nestedBody False exampleBabel noProps shadowedAst
     = Inr (nestedResult ''_useState'' ''_useState2'', shadowedFinal)"
  by (simp add: example_defs rewriter_defs Let_def)

text \<open>The functions as a printer finds them.\<close>

lemma example_emitted: "emitted 2 exampleFinal (funcNode exampleResult) = exampleOutput"
  by (simp add: example_defs numeral_2_eq_2)

lemma propsOnly_emitted: "emitted 2 propsOnlyFinal (funcNode propsOnlyResult) = propsOnlyOutput"
  by (simp add: example_defs numeral_2_eq_2)

lemma nested_emitted:
  "emitted 2 nestedFinal (funcNode (nestedResult ''useState'' ''useState''))
     = nestedOutput ''useState'' ''useState''"
  by (simp add: example_defs numeral_2_eq_2)

lemma shadowed_emitted:
  "emitted 2 shadowedFinal (funcNode (nestedResult ''_useState'' ''_useState2''))
     = nestedOutput ''_useState'' ''_useState2''"
  by (simp add: example_defs numeral_2_eq_2)

section \<open>Properties of the rewriter\<close>

lemma not_Cons_iff: "(\<forall>a b. xs \<noteq> a # b) = (xs = [])"
  by (cases xs) auto

lemma stateHookDeclaration_binds:
  "stateHookDeclaration ok s ts nf d \<Longrightarrow>
     \<exists>i. d = VariableDeclaration ''const''
               [VariableDeclarator
                  (ArrayPattern [Identifier (localName (snd nf)) None,
                                 Identifier (localSetterName (snd nf)) None]) i]"
  by (auto simp: stateHookDeclaration_def not_Cons_iff
           split: stmt.splits list.splits declarator.splits expr.splits)

lemma refHookDeclaration_declares:
  "refHookDeclaration ok s ts ln ta seed d \<Longrightarrow> declaredName d = Some ln"
  by (auto simp: refHookDeclaration_def not_Cons_iff
           split: stmt.splits list.splits declarator.splits expr.splits)

lemma fieldHookDeclaration_declares:
  "fieldHookDeclaration ok s ts nf d \<Longrightarrow> declaredName d = Some (fieldLocalName (snd nf))"
  by (induction ok s ts nf d rule: fieldHookDeclaration.induct)
     (auto dest: refHookDeclaration_declares)

lemma propsPreamble_explicit:
  "propsPreamble pa s
     = (if \<exists>(n, prop) \<in> set (props pa). needsAlias prop
        then [VariableDeclaration ''const''
                [VariableDeclarator
                   (ObjectPattern
                      (map (\<lambda>(name, prop).
                              ObjectProperty (Identifier name None)
                                (case defaultValue prop of
                                   Some dv \<Rightarrow> AssignmentPattern (Identifier (newAliasName prop) None)
                                                                 (exprAt s dv)
                                 | None \<Rightarrow> Identifier (newAliasName prop) None)
                                False (name = newAliasName prop))
                           (filter (\<lambda>(n, prop). needsAlias prop) (props pa))))
                   (Identifier ''props'' None)]]
        else [])"
proof -
  have "(filter (\<lambda>(n, prop). needsAlias prop) (props pa) \<noteq> [])
          = (\<exists>(n, prop) \<in> set (props pa). needsAlias prop)"
    by (auto simp: filter_empty_conv)
  moreover have "propProperty s = (\<lambda>(name, prop).
                              ObjectProperty (Identifier name None)
                                (case defaultValue prop of
                                   Some dv \<Rightarrow> AssignmentPattern (Identifier (newAliasName prop) None)
                                                                 (exprAt s dv)
                                 | None \<Rightarrow> Identifier (newAliasName prop) None)
                                False (name = newAliasName prop))"
    by (auto simp: propProperty_def fun_eq_iff)
  ultimately show ?thesis
    by (simp add: propsPreamble_def propsWithAlias_def)
qed

text \<open>
  C3: the body of the function is the preamble followed by the statements of the render
  method, and the preamble is, in this order: the destructuring of \<^verbatim>\<open>props\<close> that
  binds every prop whose \<^verbatim>\<open>needsAlias\<close> flag is set, with the default value as the
  default of the pattern, present only if some prop has the flag; one declaration of
  the pair of local name and setter name per state field, in the order of the state
  map; one declaration of the local name per user-defined field, in the order of the
  field map.
\<close>

theorem C3_preamble_order:
  assumes "transformClass head body ts babel np s = Inr (r, s')"
  shows "\<exists>sd fd ss.
           fbody (funcAt (prepared babel body s) (renderPath (render body))) = BlockStatement ss
         \<and> fbody (funcNode r)
             = BlockStatement
                 ((if \<exists>(n, prop) \<in> set (props (bodyProps body)). needsAlias prop
                   then [VariableDeclaration ''const''
                           [VariableDeclarator
                              (ObjectPattern
                                 (map (\<lambda>(name, prop).
                                         ObjectProperty (Identifier name None)
                                           (case defaultValue prop of
                                              Some dv \<Rightarrow>
                                                AssignmentPattern
                                                  (Identifier (newAliasName prop) None)
                                                  (exprAt s' dv)
                                            | None \<Rightarrow> Identifier (newAliasName prop) None)
                                           False (name = newAliasName prop))
                                      (filter (\<lambda>(n, prop). needsAlias prop)
                                              (props (bodyProps body)))))
                              (Identifier ''props'' None)]]
                   else [])
                  @ sd @ fd @ ss)
         \<and> list_all2
             (\<lambda>nf d. \<exists>i. d = VariableDeclaration ''const''
                               [VariableDeclarator
                                  (ArrayPattern [Identifier (localName (snd nf)) None,
                                                 Identifier (localSetterName (snd nf)) None]) i])
             (state body) sd
         \<and> list_all2 (\<lambda>nf d. declaredName d = Some (fieldLocalName (snd nf))) (userDefined body) fd"
proof -
  from transformClass_shape [OF assms] obtain sd fd ss where
    ss: "fbody (funcAt (prepared babel body s) (renderPath (render body))) = BlockStatement ss" and
    fn: "funcNode r = Func ArrowFunctionExpression None
                        (if np body then [Identifier ''props'' None] else [])
                        (BlockStatement (propsPreamble (bodyProps body) s' @ sd @ fd @ ss))
                        False False None" and
    sd: "list_all2 (stateHookDeclaration
                      (hookCallee (prepared babel body s) s' (superClassRef head) ''useState'')
                      s' ts)
                   (state body) sd" and
    fd: "list_all2 (fieldHookDeclaration
                      (hookCallee (prepared babel body s) s' (superClassRef head) ''useRef'')
                      s' ts)
                   (userDefined body) fd"
    by blast
  have sd': "list_all2
             (\<lambda>nf d. \<exists>i. d = VariableDeclaration ''const''
                               [VariableDeclarator
                                  (ArrayPattern [Identifier (localName (snd nf)) None,
                                                 Identifier (localSetterName (snd nf)) None]) i])
             (state body) sd"
    using sd by (rule list_all2_mono) (rule stateHookDeclaration_binds)
  have fd': "list_all2 (\<lambda>nf d. declaredName d = Some (fieldLocalName (snd nf)))
               (userDefined body) fd"
    using fd by (rule list_all2_mono) (rule fieldHookDeclaration_declares)
  have "fbody (funcNode r) = BlockStatement (propsPreamble (bodyProps body) s' @ sd @ fd @ ss)"
    by (simp add: fn)
  then show ?thesis
    using ss sd' fd' unfolding propsPreamble_explicit by blast
qed

text \<open>C3, witness: the example component, whose preamble has the three parts.\<close>

theorem C3_witness:
  "transformClass exampleHead exampleBody False exampleBabel exampleNeedsProps exampleAst
     = Inr (exampleResult, exampleFinal)
   \<and> (\<exists>sd fd ss.
         fbody (funcNode exampleResult)
           = BlockStatement
               ([VariableDeclaration ''const''
                   [VariableDeclarator
                      (ObjectPattern
                         [ObjectProperty (Identifier ''foo'' None)
                            (AssignmentPattern (Identifier ''foo'' None)
                               (OtherExpression ''NumericLiteral'' ''1''))
                            False True])
                      (Identifier ''props'' None)]]
                @ sd @ fd @ ss)
       \<and> list_all2
           (\<lambda>nf d. \<exists>i. d = VariableDeclaration ''const''
                             [VariableDeclarator
                                (ArrayPattern [Identifier (localName (snd nf)) None,
                                               Identifier (localSetterName (snd nf)) None]) i])
           (state exampleBody) sd
       \<and> list_all2 (\<lambda>nf d. declaredName d = Some (fieldLocalName (snd nf)))
           (userDefined exampleBody) fd)"
proof -
  from C3_preamble_order [OF example_run] obtain sd fd ss where
    a: "fbody (funcNode exampleResult)
             = BlockStatement
                 ((if \<exists>(n, prop) \<in> set (props (bodyProps exampleBody)). needsAlias prop
                   then [VariableDeclaration ''const''
                           [VariableDeclarator
                              (ObjectPattern
                                 (map (\<lambda>(name, prop).
                                         ObjectProperty (Identifier name None)
                                           (case defaultValue prop of
                                              Some dv \<Rightarrow>
                                                AssignmentPattern
                                                  (Identifier (newAliasName prop) None)
                                                  (exprAt exampleFinal dv)
                                            | None \<Rightarrow> Identifier (newAliasName prop) None)
                                           False (name = newAliasName prop))
                                      (filter (\<lambda>(n, prop). needsAlias prop)
                                              (props (bodyProps exampleBody)))))
                              (Identifier ''props'' None)]]
                   else [])
                  @ sd @ fd @ ss)" and
    b: "list_all2
             (\<lambda>nf d. \<exists>i. d = VariableDeclaration ''const''
                               [VariableDeclarator
                                  (ArrayPattern [Identifier (localName (snd nf)) None,
                                                 Identifier (localSetterName (snd nf)) None]) i])
             (state exampleBody) sd" and
    c: "list_all2 (\<lambda>nf d. declaredName d = Some (fieldLocalName (snd nf)))
          (userDefined exampleBody) fd"
    by blast
  have "(if \<exists>(n, prop) \<in> set (props (bodyProps exampleBody)). needsAlias prop
                   then [VariableDeclaration ''const''
                           [VariableDeclarator
                              (ObjectPattern
                                 (map (\<lambda>(name, prop).
                                         ObjectProperty (Identifier name None)
                                           (case defaultValue prop of
                                              Some dv \<Rightarrow>
                                                AssignmentPattern
                                                  (Identifier (newAliasName prop) None)
                                                  (exprAt exampleFinal dv)
                                            | None \<Rightarrow> Identifier (newAliasName prop) None)
                                           False (name = newAliasName prop))
                                      (filter (\<lambda>(n, prop). needsAlias prop)
                                              (props (bodyProps exampleBody)))))
                              (Identifier ''props'' None)]]
                   else [])
        = [VariableDeclaration ''const''
                   [VariableDeclarator
                      (ObjectPattern
                         [ObjectProperty (Identifier ''foo'' None)
                            (AssignmentPattern (Identifier ''foo'' None)
                               (OtherExpression ''NumericLiteral'' ''1''))
                            False True])
                      (Identifier ''props'' None)]]"
    by (simp add: exampleBody_def exampleFinal_def exampleAst_def)
  with a b c example_run show ?thesis by auto
qed


lemma stateTarget_mem:
  "(n, f) \<in> set fs \<Longrightarrow> x \<in> set (stateSites f) \<Longrightarrow> stateSiteTarget x = [p] \<Longrightarrow>
     p \<in> set (stateTargets fs)"
  unfolding stateTargets_def by force

lemma fieldTarget_mem:
  "(n, f) \<in> set fs \<Longrightarrow> FieldExprSite p \<in> set (fieldSites f) \<Longrightarrow> p \<in> set (fieldTargets fs)"
  unfolding fieldTargets_def by force

lemma propTarget_mem:
  "(n, prop) \<in> set ps \<Longrightarrow> p \<in> set (propSites prop) \<Longrightarrow>
     p \<in> set (concat (map (\<lambda>(n, prop). propSites prop) ps))"
  by force

text \<open>The node at the target of a state site after the rewriter has run.\<close>

lemma transformClass_state_site:
  assumes run: "transformClass head body ts babel np s = Inr (r, s')"
      and dist: "distinct (stateTargets (state body) @ fieldTargets (userDefined body))"
      and mem: "(n, f) \<in> set (state body)" "x \<in> set (stateSites f)"
      and tx: "stateSiteTarget x = [p]"
      and stable: "\<And>vp. x = SetStateSite p vp \<Longrightarrow>
                     vp \<notin> set (stateTargets (state body) @ fieldTargets (userDefined body))"
  shows "exprAt s' p = stateReplacement f x s'"
proof -
  from transformClass_sites [OF run] obtain s1 where
    e: "exprAt s' = exprAt (rewriteFieldSites (userDefined body)
                              (rewriteStateSites (state body)
                                 (widenPropTypes (props (bodyProps body)) s1)))"
    by blast
  let ?s2 = "widenPropTypes (props (bodyProps body)) s1"
  let ?s3 = "rewriteStateSites (state body) ?s2"
  have p: "p \<in> set (stateTargets (state body))" using mem tx by (rule stateTarget_mem)
  then have pf: "p \<notin> set (fieldTargets (userDefined body))" using dist by auto
  have d: "distinct (stateTargets (state body))" using dist by simp
  have "exprAt s' p = exprAt ?s3 p"
    unfolding e using pf by (rule rewriteFieldSites_frame)
  also have "\<dots> = stateReplacement f x ?s2"
    using d mem tx stable by (intro rewriteStateSites_hit) auto
  also have "\<dots> = stateReplacement f x s'"
  proof (cases x)
    case (ExprSite q)
    then show ?thesis by simp
  next
    case (SetStateSite q vp)
    then have q: "q = p" using tx by simp
    have v1: "vp \<notin> set (stateTargets (state body))"
     and v2: "vp \<notin> set (fieldTargets (userDefined body))"
      using stable [of vp] SetStateSite q by auto
    have "exprAt s' vp = exprAt ?s3 vp"
      unfolding e using v2 by (rule rewriteFieldSites_frame)
    also have "\<dots> = exprAt ?s2 vp" using v1 by (rule rewriteStateSites_frame)
    finally show ?thesis using SetStateSite by simp
  next
    case (OtherSite tag q)
    then show ?thesis using tx by simp
  qed
  finally show ?thesis .
qed

text \<open>
  What holds of the state sites in the tree the rewriter leaves, where every node it
  replaces at a state or field site has a path of its own: a state read site holds the
  local name of its field; a \<^verbatim>\<open>setState\<close> site, when no rewritten site is the path of
  its value, holds the call of the local setter name on the node at the path of the
  value. The preamble has, after the destructuring of the props and before the
  declarations of the user-defined fields, one declaration per entry of the state map,
  in the order of the map: it binds the pair of local name and setter name to the call,
  on the node of the initial value if one was recorded and on no argument otherwise, of
  the reference to \<^verbatim>\<open>useState\<close>, when that name does not collide.
\<close>

lemma state_round_trip:
  assumes "transformClass head body ts babel np s = Inr (r, s')"
      and "distinct (stateTargets (state body) @ fieldTargets (userDefined body))"
      and "\<not> collides (prepared babel body s) (superClassRef head) ''useState''"
  shows "(\<forall>(n, f) \<in> set (state body). \<forall>x \<in> set (stateSites f).
            (case x of
               ExprSite p \<Rightarrow> exprAt s' p = Identifier (localName f) None
             | SetStateSite p vp \<Rightarrow>
                 vp \<notin> set (stateTargets (state body) @ fieldTargets (userDefined body)) \<longrightarrow>
                 exprAt s' p = CallExpression (Identifier (localSetterName f) None)
                                              [exprAt s' vp] None
             | OtherSite tag p \<Rightarrow> True))
       \<and> (\<exists>sd fd ss.
             fbody (funcNode r)
               = BlockStatement (propsPreamble (bodyProps body) s' @ sd @ fd @ ss)
           \<and> fbody (funcAt (prepared babel body s) (renderPath (render body))) = BlockStatement ss
           \<and> length fd = length (userDefined body)
           \<and> list_all2 (stateHookDeclaration (refersTo s' (superClassRef head) ''useState'') s' ts)
                        (state body) sd)"
proof -
  have sites: "\<forall>(n, f) \<in> set (state body). \<forall>x \<in> set (stateSites f).
            (case x of
               ExprSite p \<Rightarrow> exprAt s' p = Identifier (localName f) None
             | SetStateSite p vp \<Rightarrow>
                 vp \<notin> set (stateTargets (state body) @ fieldTargets (userDefined body)) \<longrightarrow>
                 exprAt s' p = CallExpression (Identifier (localSetterName f) None)
                                              [exprAt s' vp] None
             | OtherSite tag p \<Rightarrow> True)"
  proof (clarify)
    fix n f x
    assume mem: "(n, f) \<in> set (state body)" "x \<in> set (stateSites f)"
    show "case x of
               ExprSite p \<Rightarrow> exprAt s' p = Identifier (localName f) None
             | SetStateSite p vp \<Rightarrow>
                 vp \<notin> set (stateTargets (state body) @ fieldTargets (userDefined body)) \<longrightarrow>
                 exprAt s' p = CallExpression (Identifier (localSetterName f) None)
                                              [exprAt s' vp] None
             | OtherSite tag p \<Rightarrow> True"
    proof (cases x)
      case (ExprSite p)
      have "exprAt s' p = stateReplacement f x s'"
        using assms(1,2) mem by (rule transformClass_state_site) (simp_all add: ExprSite)
      then show ?thesis by (simp add: ExprSite)
    next
      case (SetStateSite p vp)
      show ?thesis
      proof (cases "vp \<in> set (stateTargets (state body) @ fieldTargets (userDefined body))")
        case True
        then show ?thesis by (auto simp: SetStateSite)
      next
        case False
        have "exprAt s' p = stateReplacement f x s'"
          using assms(1,2) mem
          by (rule transformClass_state_site) (use False in \<open>simp_all add: SetStateSite\<close>)
        then show ?thesis by (simp add: SetStateSite)
      qed
    next
      case (OtherSite tag p)
      then show ?thesis by simp
    qed
  qed
  from transformClass_shape [OF assms(1)] obtain sd fd ss where
    ss: "fbody (funcAt (prepared babel body s) (renderPath (render body))) = BlockStatement ss" and
    fn: "funcNode r = Func ArrowFunctionExpression None
                        (if np body then [Identifier ''props'' None] else [])
                        (BlockStatement (propsPreamble (bodyProps body) s' @ sd @ fd @ ss))
                        False False None" and
    sd: "list_all2 (stateHookDeclaration
                      (hookCallee (prepared babel body s) s' (superClassRef head) ''useState'')
                      s' ts)
                   (state body) sd" and
    fd: "list_all2 (fieldHookDeclaration
                      (hookCallee (prepared babel body s) s' (superClassRef head) ''useRef'')
                      s' ts)
                   (userDefined body) fd"
    by blast
  have sd': "list_all2 (stateHookDeclaration (refersTo s' (superClassRef head) ''useState'') s' ts)
               (state body) sd"
    using sd
  proof (rule list_all2_mono)
    fix nf d
    assume "stateHookDeclaration
              (hookCallee (prepared babel body s) s' (superClassRef head) ''useState'') s' ts nf d"
    then show "stateHookDeclaration (refersTo s' (superClassRef head) ''useState'') s' ts nf d"
      by (rule stateHookDeclaration_mono [rotated]) (use assms(3) in \<open>simp add: hookCallee_def\<close>)
  qed
  have "length fd = length (userDefined body)"
    using fd by (simp add: list_all2_lengthD)
  moreover have "fbody (funcNode r)
                   = BlockStatement (propsPreamble (bodyProps body) s' @ sd @ fd @ ss)"
    by (simp add: fn)
  ultimately show ?thesis using sites ss sd' by blast
qed

text \<open>
  C2, the failing inputs. First, two state fields \<^verbatim>\<open>count\<close> and \<^verbatim>\<open>step\<close>, in this order
  in the state map, and the update \<^verbatim>\<open>this.setState({count: this.state.step})\<close>, whose
  value, at path 3, is itself a read site of \<^verbatim>\<open>step\<close>. The call is replaced first, by
  \<^verbatim>\<open>setCount\<close> applied to the node then at path 3; the read site at path 3 is replaced
  afterwards, in the object literal that the tree no longer holds. The function the
  rewriter returns, read in the tree it leaves, calls \<^verbatim>\<open>setCount(this.state.step)\<close>: a
  state read site is not replaced by the local name of its field.

  Second, the same component with a binding named \<^verbatim>\<open>useState\<close> in scope of the import
  declaration: the two state declarations call \<^verbatim>\<open>_useState\<close> and \<^verbatim>\<open>_useState2\<close>, which
  the import declaration imports under these very names, and no specifier imports
  \<^verbatim>\<open>useState\<close>.
\<close>

theorem C2_update_keeps_state_read:
  "transformClass exampleHead nestedBody False exampleBabel noProps nestedAst
     = Inr (nestedResult ''useState'' ''useState'', nestedFinal)
   \<and> map fst (state nestedBody) = [''count'', ''step'']
   \<and> stateSites (snd (state nestedBody ! 0)) = [ExprSite 1, SetStateSite 2 3]
   \<and> stateSites (snd (state nestedBody ! 1)) = [ExprSite 3]
   \<and> exprAt nestedAst 3
       = MemberExpression (MemberExpression thisExpression (Identifier ''state'' None) False)
                          (Identifier ''step'' None) False
   \<and> exprAt nestedFinal 3 = Identifier ''step'' None
   \<and> exprAt nestedFinal 2
       = CallExpression (Identifier ''setCount'' None)
           [MemberExpression (MemberExpression thisExpression (Identifier ''state'' None) False)
                             (Identifier ''step'' None) False]
           None
   \<and> emitted 2 nestedFinal (funcNode (nestedResult ''useState'' ''useState''))
       = nestedOutput ''useState'' ''useState''
   \<and> transformClass exampleHead nestedBody False exampleBabel noProps shadowedAst
       = Inr (nestedResult ''_useState'' ''_useState2'', shadowedFinal)
   \<and> emitted 2 shadowedFinal (funcNode (nestedResult ''_useState'' ''_useState2''))
       = nestedOutput ''_useState'' ''_useState2''
   \<and> specifiers shadowedFinal 21
       = [ImportSpecifier ''Component'' (ImportedIdentifier ''Component''),
          ImportSpecifier ''_useState'' (ImportedIdentifier ''_useState''),
          ImportSpecifier ''_useState2'' (ImportedIdentifier ''_useState2'')]
   \<and> find (importsName ''useState'') (specifiers shadowedFinal 21) = None"
proof -
  have a: "map fst (state nestedBody) = [''count'', ''step'']"
          "stateSites (snd (state nestedBody ! 0)) = [ExprSite 1, SetStateSite 2 3]"
          "stateSites (snd (state nestedBody ! 1)) = [ExprSite 3]"
    by (simp_all add: nestedBody_def)
  have b: "exprAt nestedAst 3
             = MemberExpression (MemberExpression thisExpression (Identifier ''state'' None) False)
                                (Identifier ''step'' None) False"
          "exprAt nestedFinal 3 = Identifier ''step'' None"
          "exprAt nestedFinal 2
             = CallExpression (Identifier ''setCount'' None)
                 [MemberExpression (MemberExpression thisExpression (Identifier ''state'' None) False)
                                   (Identifier ''step'' None) False]
                 None"
    by (simp_all add: nestedFinal_def nestedAst_def)
  have c: "specifiers shadowedFinal 21
             = [ImportSpecifier ''Component'' (ImportedIdentifier ''Component''),
                ImportSpecifier ''_useState'' (ImportedIdentifier ''_useState''),
                ImportSpecifier ''_useState2'' (ImportedIdentifier ''_useState2'')]"
    by (simp add: shadowedFinal_def)
  have d: "find (importsName ''useState'') (specifiers shadowedFinal 21) = None"
    unfolding c by simp
  show ?thesis
    by (intro conjI) (rule nested_run shadowed_run nested_emitted shadowed_emitted a b c d)+
qed


text \<open>
  C7, the failing input: the base class is imported by name, \<^verbatim>\<open>useState\<close> is not
  imported yet and a binding named \<^verbatim>\<open>useState\<close> is in scope. The first request
  inserts a specifier whose imported name is the generated local name \<^verbatim>\<open>_useState\<close>,
  so the second request for the same name finds no specifier importing \<^verbatim>\<open>useState\<close>
  and inserts again.
\<close>

theorem C7_collision_inserts_twice:
  "getReactImport ''useState'' exampleBabel (Import Named 20) collidingAst
     = Inr (Identifier ''_useState'' None, afterFirstRequest)
   \<and> getReactImport ''useState'' exampleBabel (Import Named 20) afterFirstRequest
     = Inr (Identifier ''_useState2'' None, afterSecondRequest)
   \<and> specifiers collidingAst 21
     = [ImportSpecifier ''Component'' (ImportedIdentifier ''Component'')]
   \<and> specifiers afterSecondRequest 21
     = [ImportSpecifier ''Component'' (ImportedIdentifier ''Component''),
        ImportSpecifier ''_useState'' (ImportedIdentifier ''_useState''),
        ImportSpecifier ''_useState2'' (ImportedIdentifier ''_useState2'')]"
  by (simp add: getReactImport_def exampleBabel_def collidingAst_def afterFirstRequest_def
                afterSecondRequest_def exampleAst_def Let_def)






text \<open>
  C4: in the tree the rewriter leaves, where every node it replaces has a path of its
  own: if the component has a default (\<^verbatim>\<open>hasDefaults\<close>), every read site of every prop
  holds the bare canonical local name of the prop; otherwise every recorded access to
  the props object held a member expression and now holds the property of it, which is
  \<^verbatim>\<open>props\<close> for \<^verbatim>\<open>this.props\<close>. The function has the one parameter \<^verbatim>\<open>props\<close> when
  \<^verbatim>\<open>needsProps\<close> holds of the body and no parameter otherwise.
\<close>

theorem C4_props:
  assumes "transformClass head body ts babel np s = Inr (r, s')"
      and "distinct (rewrittenPaths body)"
  shows "(hasDefaults (bodyProps body) \<longrightarrow>
            (\<forall>(n, prop) \<in> set (props (bodyProps body)). \<forall>p \<in> set (propSites prop).
               exprAt s' p = Identifier (newAliasName prop) None))
       \<and> (\<not> hasDefaults (bodyProps body) \<longrightarrow>
            (\<forall>p \<in> set (sites (bodyProps body)).
               \<exists>ob c. exprAt (prepared babel body s) p = MemberExpression ob (exprAt s' p) c))
       \<and> params (funcNode r) = (if np body then [Identifier ''props'' None] else [])"
proof -
  let ?pa = "bodyProps body"
  let ?s0 = "prepared babel body s"
  from transformClass_sites [OF assms(1)] obtain s1 where
    a: "rewritePropSites ?pa ?s0 = Inr s1" and
    e: "exprAt s' = exprAt (rewriteFieldSites (userDefined body)
                              (rewriteStateSites (state body)
                                 (widenPropTypes (props ?pa) s1)))" and
    w: "exprAt (widenPropTypes (props ?pa) s1) = exprAt s1"
    by blast
  have dp: "distinct (propTargets ?pa)"
    using assms(2) by (simp add: rewrittenPaths_def)
  have later: "\<And>p. p \<in> set (propTargets ?pa) \<Longrightarrow> exprAt s' p = exprAt s1 p"
  proof -
    fix p
    assume p: "p \<in> set (propTargets ?pa)"
    then have ps: "p \<notin> set (stateTargets (state body))"
          and pf: "p \<notin> set (fieldTargets (userDefined body))"
      using assms(2) by (auto simp: rewrittenPaths_def)
    have "exprAt s' p = exprAt (rewriteStateSites (state body) (widenPropTypes (props ?pa) s1)) p"
      unfolding e using pf by (rule rewriteFieldSites_frame)
    also have "\<dots> = exprAt (widenPropTypes (props ?pa) s1) p"
      using ps by (rule rewriteStateSites_frame)
    finally show "exprAt s' p = exprAt s1 p" using w by simp
  qed
  have p1a: "\<And>n pr p. hasDefaults ?pa \<Longrightarrow> (n, pr) \<in> set (props ?pa) \<Longrightarrow>
                p \<in> set (propSites pr) \<Longrightarrow> exprAt s' p = Identifier (newAliasName pr) None"
  proof -
    fix n pr p
    assume h: "hasDefaults ?pa" and mem: "(n, pr) \<in> set (props ?pa)" "p \<in> set (propSites pr)"
    have s1: "s1 = fold (\<lambda>(n, prop). rewriteProp prop) (props ?pa) ?s0"
      using a h by (simp add: rewritePropSites_def)
    have d: "distinct (concat (map (\<lambda>(n, prop). propSites prop) (props ?pa)))"
      using dp h by (simp add: propTargets_def)
    have t: "p \<in> set (propTargets ?pa)"
      using propTarget_mem [OF mem] h by (simp add: propTargets_def)
    have "exprAt s1 p = Identifier (newAliasName pr) None"
      unfolding s1 using d mem by (rule rewriteProps_hit)
    then show "exprAt s' p = Identifier (newAliasName pr) None"
      using later [OF t] by simp
  qed
  have p1: "hasDefaults ?pa \<longrightarrow>
            (\<forall>(n, prop) \<in> set (props ?pa). \<forall>p \<in> set (propSites prop).
               exprAt s' p = Identifier (newAliasName prop) None)"
    using p1a by blast
  have p2: "\<not> hasDefaults ?pa \<longrightarrow>
            (\<forall>p \<in> set (sites ?pa).
               \<exists>ob c. exprAt ?s0 p = MemberExpression ob (exprAt s' p) c)"
  proof (intro impI ballI)
    fix p
    assume h: "\<not> hasDefaults ?pa" and mem: "p \<in> set (sites ?pa)"
    have f: "foldE rewritePropsObject (sites ?pa) ?s0 = Inr s1"
      using a h by (simp add: rewritePropSites_def)
    have d: "distinct (sites ?pa)" using dp h by (simp add: propTargets_def)
    have t: "p \<in> set (propTargets ?pa)" using mem h by (simp add: propTargets_def)
    from propsObject_hit [OF f d mem] obtain ob c where
      "exprAt ?s0 p = MemberExpression ob (exprAt s1 p) c" by blast
    then show "\<exists>ob c. exprAt ?s0 p = MemberExpression ob (exprAt s' p) c"
      using later [OF t] by simp
  qed
  from transformClass_shape [OF assms(1)] obtain body' where
    "funcNode r = Func ArrowFunctionExpression None
                    (if np body then [Identifier ''props'' None] else [])
                    body' False False None"
    by blast
  then have p3: "params (funcNode r) = (if np body then [Identifier ''props'' None] else [])"
    by simp
  show ?thesis using p1 p2 p3 by blast
qed

text \<open>C4, witness: the example component, which has a default, and the component that
  only reads \<^verbatim>\<open>this.props.foo\<close>, which has none.\<close>

theorem C4_witness:
  "transformClass exampleHead exampleBody False exampleBabel exampleNeedsProps exampleAst
     = Inr (exampleResult, exampleFinal)
   \<and> distinct (rewrittenPaths exampleBody)
   \<and> hasDefaults (bodyProps exampleBody)
   \<and> exprAt exampleFinal 5 = Identifier ''foo'' None
   \<and> params (funcNode exampleResult) = [Identifier ''props'' None]
   \<and> transformClass exampleHead propsOnlyBody False exampleBabel exampleNeedsProps exampleAst
     = Inr (propsOnlyResult, propsOnlyFinal)
   \<and> distinct (rewrittenPaths propsOnlyBody)
   \<and> \<not> hasDefaults (bodyProps propsOnlyBody)
   \<and> (\<exists>ob c. exprAt (prepared exampleBabel propsOnlyBody exampleAst) 9
                 = MemberExpression ob (exprAt propsOnlyFinal 9) c)
   \<and> exprAt propsOnlyFinal 9 = Identifier ''props'' None"
proof -
  have d1: "distinct (rewrittenPaths exampleBody)"
    by (simp add: exampleBody_def rewrittenPaths_def propTargets_def stateTargets_def
                  fieldTargets_def)
  have d2: "distinct (rewrittenPaths propsOnlyBody)"
    by (simp add: propsOnlyBody_def rewrittenPaths_def propTargets_def stateTargets_def
                  fieldTargets_def)
  have a: "exprAt exampleFinal 5 = Identifier ''foo'' None
           \<and> params (funcNode exampleResult) = [Identifier ''props'' None]
           \<and> hasDefaults (bodyProps exampleBody)"
    using C4_props [OF example_run d1]
    by (simp add: exampleBody_def exampleNeedsProps_def)
  have b: "(\<exists>ob c. exprAt (prepared exampleBabel propsOnlyBody exampleAst) 9
                     = MemberExpression ob (exprAt propsOnlyFinal 9) c)
           \<and> \<not> hasDefaults (bodyProps propsOnlyBody)"
    using C4_props [OF propsOnly_run d2]
    by (simp add: propsOnlyBody_def)
  have c: "exprAt propsOnlyFinal 9 = Identifier ''props'' None"
    by (simp add: propsOnlyFinal_def)
  show ?thesis using example_run propsOnly_run d1 d2 a b c by blast
qed

text \<open>
  C8: for a prop that has a default value and a typing, the type member at the typing
  is optional after the rewrite; a property signature keeps its key and has its
  annotation, if any, widened: a union that contains \<^verbatim>\<open>undefined\<close> stays as it is, another
  union gets \<^verbatim>\<open>undefined\<close> appended, any other type becomes the union of itself and
  \<^verbatim>\<open>undefined\<close>. If the prop needs an alias, the preamble starts with the destructuring
  of \<^verbatim>\<open>props\<close>, in which the prop is bound with its default value as the default of
  the pattern.
\<close>

theorem C8_default_prop_typing:
  assumes "transformClass head body ts babel np s = Inr (r, s')"
      and "(n, prop) \<in> set (props (bodyProps body))"
      and "defaultValue prop = Some dv"
      and "typing prop = Some tp"
  shows "optional (memberAt s' tp)
       \<and> memberAt s' tp
           = (case memberAt (prepared babel body s) tp of
                TSPropertySignature k opt ann \<Rightarrow>
                  TSPropertySignature k True
                    (map_option
                       (\<lambda>a. case a of
                               TSUnionType ts \<Rightarrow>
                                 (if TSUndefinedKeyword \<in> set ts then TSUnionType ts
                                  else TSUnionType (ts @ [TSUndefinedKeyword]))
                             | _ \<Rightarrow> TSUnionType [a, TSUndefinedKeyword])
                       ann)
              | TSMethodSignature k opt \<Rightarrow> TSMethodSignature k True)
       \<and> (needsAlias prop \<longrightarrow>
            (\<exists>ps rest.
               fbody (funcNode r)
                 = BlockStatement
                     (VariableDeclaration ''const''
                        [VariableDeclarator (ObjectPattern ps) (Identifier ''props'' None)] # rest)
             \<and> ObjectProperty (Identifier n None)
                  (AssignmentPattern (Identifier (newAliasName prop) None) (exprAt s' dv))
                  False (n = newAliasName prop) \<in> set ps))"
proof -
  let ?pa = "bodyProps body"
  let ?s0 = "prepared babel body s"
  from transformClass_sites [OF assms(1)] obtain s1 where
    m: "memberAt s' = memberAt (widenPropTypes (props ?pa) s1)" and
    m1: "memberAt s1 = memberAt ?s0"
    by blast
  have hit: "\<exists>(n, prop) \<in> set (props ?pa). defaultValue prop \<noteq> None \<and> typing prop = Some tp"
    using assms(2,3,4) by auto
  have mo: "memberAt s' tp = makeOptional (memberAt ?s0 tp)"
    using widenPropTypes_member [of "props ?pa" s1 tp] hit m m1 by simp
  have w: "widenTypeAnnotation
             = (\<lambda>a. case a of
                       TSUnionType ts \<Rightarrow>
                         (if TSUndefinedKeyword \<in> set ts then TSUnionType ts
                          else TSUnionType (ts @ [TSUndefinedKeyword]))
                     | _ \<Rightarrow> TSUnionType [a, TSUndefinedKeyword])"
    by (auto simp: widenTypeAnnotation_def fun_eq_iff list_ex_iff split: tstype.splits)
  have p1: "optional (memberAt s' tp)"
    unfolding mo by (cases "memberAt ?s0 tp") (simp_all add: makeOptional_def)
  have p2: "memberAt s' tp
           = (case memberAt ?s0 tp of
                TSPropertySignature k opt ann \<Rightarrow>
                  TSPropertySignature k True
                    (map_option
                       (\<lambda>a. case a of
                               TSUnionType ts \<Rightarrow>
                                 (if TSUndefinedKeyword \<in> set ts then TSUnionType ts
                                  else TSUnionType (ts @ [TSUndefinedKeyword]))
                             | _ \<Rightarrow> TSUnionType [a, TSUndefinedKeyword])
                       ann)
              | TSMethodSignature k opt \<Rightarrow> TSMethodSignature k True)"
    unfolding mo makeOptional_def w by simp
  have p3: "needsAlias prop \<longrightarrow>
            (\<exists>ps rest.
               fbody (funcNode r)
                 = BlockStatement
                     (VariableDeclaration ''const''
                        [VariableDeclarator (ObjectPattern ps) (Identifier ''props'' None)] # rest)
             \<and> ObjectProperty (Identifier n None)
                  (AssignmentPattern (Identifier (newAliasName prop) None) (exprAt s' dv))
                  False (n = newAliasName prop) \<in> set ps)"
  proof
    assume na: "needsAlias prop"
    from transformClass_shape [OF assms(1)] obtain sd fd ss where
      fn: "funcNode r = Func ArrowFunctionExpression None
                        (if np body then [Identifier ''props'' None] else [])
                        (BlockStatement (propsPreamble ?pa s' @ sd @ fd @ ss))
                        False False None"
      by blast
    have inw: "(n, prop) \<in> set (propsWithAlias ?pa)"
      using assms(2) na by (simp add: propsWithAlias_def)
    then have ne: "length (propsWithAlias ?pa) > 0" by (cases "propsWithAlias ?pa") auto
    have pre: "propsPreamble ?pa s'
                 = [VariableDeclaration ''const''
                      [VariableDeclarator (ObjectPattern (map (propProperty s') (propsWithAlias ?pa)))
                                          (Identifier ''props'' None)]]"
      using ne by (simp add: propsPreamble_def)
    have "propProperty s' (n, prop) \<in> set (map (propProperty s') (propsWithAlias ?pa))"
      using inw by force
    then have "ObjectProperty (Identifier n None)
                  (AssignmentPattern (Identifier (newAliasName prop) None) (exprAt s' dv))
                  False (n = newAliasName prop)
                 \<in> set (map (propProperty s') (propsWithAlias ?pa))"
      using assms(3) by (simp add: propProperty_def)
    moreover have "fbody (funcNode r)
                     = BlockStatement
                         (VariableDeclaration ''const''
                            [VariableDeclarator
                               (ObjectPattern (map (propProperty s') (propsWithAlias ?pa)))
                               (Identifier ''props'' None)] # (sd @ fd @ ss))"
      by (simp add: fn pre)
    ultimately show "\<exists>ps rest.
               fbody (funcNode r)
                 = BlockStatement
                     (VariableDeclaration ''const''
                        [VariableDeclarator (ObjectPattern ps) (Identifier ''props'' None)] # rest)
             \<and> ObjectProperty (Identifier n None)
                  (AssignmentPattern (Identifier (newAliasName prop) None) (exprAt s' dv))
                  False (n = newAliasName prop) \<in> set ps"
      by blast
  qed
  show ?thesis using p1 p2 p3 by blast
qed

text \<open>C8, witness: the prop \<^verbatim>\<open>foo\<close> of the example component, with default \<^verbatim>\<open>1\<close> and
  type \<^verbatim>\<open>number\<close>: its type becomes \<^verbatim>\<open>number | undefined\<close> and it is destructured as
  \<^verbatim>\<open>foo = 1\<close>.\<close>

theorem C8_witness:
  "transformClass exampleHead exampleBody False exampleBabel exampleNeedsProps exampleAst
     = Inr (exampleResult, exampleFinal)
   \<and> memberAt (prepared exampleBabel exampleBody exampleAst) 14
       = TSPropertySignature ''foo'' False (Some (OtherType ''TSNumberKeyword''))
   \<and> exprAt exampleFinal 13 = OtherExpression ''NumericLiteral'' ''1''
   \<and> optional (memberAt exampleFinal 14)
   \<and> memberAt exampleFinal 14
       = TSPropertySignature ''foo'' True
           (Some (TSUnionType [OtherType ''TSNumberKeyword'', TSUndefinedKeyword]))
   \<and> (\<exists>ps rest.
         fbody (funcNode exampleResult)
           = BlockStatement
               (VariableDeclaration ''const''
                  [VariableDeclarator (ObjectPattern ps) (Identifier ''props'' None)] # rest)
       \<and> ObjectProperty (Identifier ''foo'' None)
            (AssignmentPattern (Identifier ''foo'' None) (OtherExpression ''NumericLiteral'' ''1''))
            False True \<in> set ps)"
proof -
  let ?foo = "\<lparr>aliases = [], newAliasName = ''foo'', propSites = [5],
                defaultValue = Some 13, typing = Some 14, needsAlias = True\<rparr>"
  have mem: "(''foo'', ?foo) \<in> set (props (bodyProps exampleBody))"
    by (simp add: exampleBody_def)
  have m0: "memberAt (prepared exampleBabel exampleBody exampleAst) 14
              = TSPropertySignature ''foo'' False (Some (OtherType ''TSNumberKeyword''))"
    by (simp add: prepared_def renameLocals_def removeLocals_def renameAliases_def
                  exampleBody_def exampleBabel_def exampleAst_def)
  have e: "exprAt exampleFinal 13 = OtherExpression ''NumericLiteral'' ''1''"
    by (simp add: exampleFinal_def exampleAst_def)
  show ?thesis
    using C8_default_prop_typing [OF example_run mem, of 13 14] example_run m0 e
    by simp
qed


section \<open>Properties of the visitor\<close>




text \<open>
  C9: when the analysis and the rewriter succeed, a named class whose parent is no
  default export is replaced by the declaration \<^verbatim>\<open>const Name = function\<close>; a named class
  under \<^verbatim>\<open>export default\<close> has its export declaration replaced by that declaration
  followed by \<^verbatim>\<open>export default Name\<close>; a class without a name under
  \<^verbatim>\<open>export default\<close> is replaced in place by the function. In TypeScript mode the
  declared name carries the derived type.
\<close>

theorem C9_replacement:
  assumes "analyzeHead an cp s = Some head"
      and "analyzeBody an cp head s = Inr body"
      and "transformClass head body ts babel (needsProps an) s = Inr (r, s1)"
  shows "(cp = Plain c \<and> classId (content c) = Some i \<longrightarrow>
            visitClassDeclaration an babel ts cp s
              = Inr (ReplaceWithStatement
                       (VariableDeclaration ''const''
                          [VariableDeclarator (Identifier i (if ts then typeNode r else None))
                                              (FunctionNode (funcNode r))]),
                     s1))
       \<and> (cp = DefaultExport d \<and> classId (content (content d)) = Some i \<longrightarrow>
            visitClassDeclaration an babel ts cp s
              = Inr (ReplaceWithMultiple
                       [VariableDeclaration ''const''
                          [VariableDeclarator (Identifier i (if ts then typeNode r else None))
                                              (FunctionNode (funcNode r))],
                        ExportDefaultDeclaration (Identifier i None)],
                     s1))
       \<and> (cp = DefaultExport d \<and> classId (content (content d)) = None \<longrightarrow>
            visitClassDeclaration an babel ts cp s
              = Inr (ReplaceWithExpression (FunctionNode (funcNode r)), s1))"
  using assms
  by (auto simp: visitClassDeclaration_def tryBlock_def bindE_def componentDeclaration_def)

text \<open>C9, witness: the class \<^verbatim>\<open>Counter\<close> of the example component, alone, under
  \<^verbatim>\<open>export default\<close>, and without its name under \<^verbatim>\<open>export default\<close>.\<close>

theorem C9_witness:
  "analyzeHead exampleAnalysis (Plain counterClass) exampleAst = Some exampleHead
   \<and> analyzeBody exampleAnalysis (Plain counterClass) exampleHead exampleAst = Inr exampleBody
   \<and> transformClass exampleHead exampleBody False exampleBabel (needsProps exampleAnalysis) exampleAst
       = Inr (exampleResult, exampleFinal)
   \<and> visitClassDeclaration exampleAnalysis exampleBabel False (Plain counterClass) exampleAst
       = Inr (ReplaceWithStatement
                (VariableDeclaration ''const''
                   [VariableDeclarator (Identifier ''Counter'' None)
                                       (FunctionNode (funcNode exampleResult))]),
              exampleFinal)
   \<and> visitClassDeclaration exampleAnalysis exampleBabel False
         (DefaultExport (exported counterClass)) exampleAst
       = Inr (ReplaceWithMultiple
                [VariableDeclaration ''const''
                   [VariableDeclarator (Identifier ''Counter'' None)
                                       (FunctionNode (funcNode exampleResult))],
                 ExportDefaultDeclaration (Identifier ''Counter'' None)],
              exampleFinal)
   \<and> visitClassDeclaration exampleAnalysis exampleBabel False
         (DefaultExport (exported anonymousClass)) exampleAst
       = Inr (ReplaceWithExpression (FunctionNode (funcNode exampleResult)), exampleFinal)"
proof -
  have np: "needsProps exampleAnalysis = exampleNeedsProps"
    by (simp add: exampleAnalysis_def)
  have run: "transformClass exampleHead exampleBody False exampleBabel (needsProps exampleAnalysis)
               exampleAst = Inr (exampleResult, exampleFinal)"
    unfolding np by (rule example_run)
  have h: "\<And>cp. analyzeHead exampleAnalysis cp exampleAst = Some exampleHead"
          "\<And>cp. analyzeBody exampleAnalysis cp exampleHead exampleAst = Inr exampleBody"
    by (simp_all add: exampleAnalysis_def)
  have a: "visitClassDeclaration exampleAnalysis exampleBabel False (Plain counterClass) exampleAst
       = Inr (ReplaceWithStatement
                (VariableDeclaration ''const''
                   [VariableDeclarator (Identifier ''Counter'' None)
                                       (FunctionNode (funcNode exampleResult))]),
              exampleFinal)"
    using C9_replacement [OF h(1) h(2) run, where cp = "Plain counterClass"
                            and c = counterClass and i = "''Counter''"]
    by (simp add: counterClass_def)
  have b: "visitClassDeclaration exampleAnalysis exampleBabel False
         (DefaultExport (exported counterClass)) exampleAst
       = Inr (ReplaceWithMultiple
                [VariableDeclaration ''const''
                   [VariableDeclarator (Identifier ''Counter'' None)
                                       (FunctionNode (funcNode exampleResult))],
                 ExportDefaultDeclaration (Identifier ''Counter'' None)],
              exampleFinal)"
    using C9_replacement [OF h(1) h(2) run, where cp = "DefaultExport (exported counterClass)"
                            and i = "''Counter''" and d = "exported counterClass"]
    by (simp add: counterClass_def exported_def)
  have c: "visitClassDeclaration exampleAnalysis exampleBabel False
         (DefaultExport (exported anonymousClass)) exampleAst
       = Inr (ReplaceWithExpression (FunctionNode (funcNode exampleResult)), exampleFinal)"
    using C9_replacement [OF h(1) h(2) run, where cp = "DefaultExport (exported anonymousClass)"
                            and d = "exported anonymousClass"]
    by (simp add: anonymousClass_def counterClass_def exported_def)
  show ?thesis using h run a b c by simp
qed

end
